theory Spec2Isabelle
  imports Main "HOL-Library.Char_ord" "HOL-Library.List_Lexorder"
begin

section \<open>Data model\<close>

text \<open>
  The ledger of the calendar shop: one row per calendar day (\<open>calendarDay\<close>), an
  append-only audit table (\<open>auditLog\<close>) and the settings singleton.  A timestamp is
  the number of milliseconds a JavaScript \<open>Date\<close> holds.  The date column of a row
  is kept in the form the handlers receive and return it, the ISO day
  \<open>''2027-03-15''\<close>: the handlers turn that string into the \<open>Date\<close> of its UTC
  midnight and back, one to one.  The columns the database fills in by itself (the id
  and \<open>createdAt\<close> of an audit entry, \<open>createdAt\<close> and \<open>updatedAt\<close> of a day)
  are left out; the audit table is kept in the order of insertion.
\<close>

type_synonym timestamp = int

datatype DayStatus = AVAILABLE | CHECKOUT_HOLD | SOLD | ADMIN_HOLD

record CalendarDay =
  day_id :: string
  date :: string
  status :: DayStatus
  dedicationText :: "string option"
  buyerFirstName :: "string option"
  buyerLastName :: "string option"
  buyerEmail :: "string option"
  buyerPhone :: "string option"
  billingAddress :: "string option"
  contactOptIn :: bool
  stripePaymentIntentId :: "string option"
  orderId :: "string option"
  amountPaidCents :: "int option"
  paidAt :: "timestamp option"
  holdToken :: "string option"
  holdExpiresAt :: "timestamp option"
  adminNote :: "string option"

text \<open>The values stored in the JSON snapshots of an audit entry.\<close>

datatype jval = JNull | JStr string | JNum int | JBool bool | JStatus DayStatus

type_synonym jobj = "(string \<times> jval) list"

datatype audit_action =
    STATUS_CHANGE | TEXT_EDIT | HOLD_CREATED | HOLD_RELEASED
  | CHECKOUT_HOLD_CREATED | CHECKOUT_HOLD_EXPIRED | PAYMENT_RECEIVED
  | REFUND_ISSUED | DATE_RESTORED

record AuditLog =
  calendarDayId :: string
  action :: audit_action
  oldValue :: "jobj option"
  newValue :: "jobj option"
  performedBy :: string
  ipAddress :: "string option"
  notesText :: "string option"

record AdminSettings =
  emojisAllowed :: bool
  textRequired :: bool
  priceInCents :: int
  calendarYear :: nat
  salesStartDate :: "timestamp option"
  salesEndDate :: "timestamp option"

record db =
  calendarDay :: "CalendarDay list"
  auditLog :: "AuditLog list"
  adminSettings :: "AdminSettings option"

text \<open>A handler answers with a JSON payload (status 200) or with an error and its
  HTTP status.\<close>

datatype 'a response = Json 'a | Error nat string

fun http_status :: "'a response \<Rightarrow> nat" where
  "http_status (Json _) = 200"
| "http_status (Error c _) = c"

section \<open>JavaScript and Prisma primitives\<close>

text \<open>A string that JavaScript treats as true: neither missing nor empty.\<close>

definition truthy :: "string option \<Rightarrow> bool" where
  "truthy v = (case v of None \<Rightarrow> False | Some s \<Rightarrow> s \<noteq> [])"

text \<open>\<open>a || b || null\<close> on strings.\<close>

definition or_null :: "string option \<Rightarrow> string option \<Rightarrow> string option" where
  "or_null a b = (if truthy a then a else if truthy b then b else None)"

text \<open>\<open>a || 'default'\<close> on strings.\<close>

definition or_default :: "string option \<Rightarrow> string \<Rightarrow> string" where
  "or_default a b = (case a of None \<Rightarrow> b | Some s \<Rightarrow> if s = [] then b else s)"

definition jopt :: "string option \<Rightarrow> jval" where
  "jopt v = (case v of None \<Rightarrow> JNull | Some s \<Rightarrow> JStr s)"

definition jnum_opt :: "int option \<Rightarrow> jval" where
  "jnum_opt v = (case v of None \<Rightarrow> JNull | Some n \<Rightarrow> JNum n)"

text \<open>\<open>String(n)\<close> for a natural number and \<open>padStart\<close>.\<close>

fun String_of_nat :: "nat \<Rightarrow> string" where
  "String_of_nat n =
     (if n < 10 then [''0123456789'' ! n]
      else String_of_nat (n div 10) @ [''0123456789'' ! (n mod 10)])"

declare String_of_nat.simps [simp del]

definition padStart :: "nat \<Rightarrow> char \<Rightarrow> string \<Rightarrow> string" where
  "padStart n c s = replicate (n - length s) c @ s"

text \<open>
  The schema file is not among the sources.  That \<open>id\<close>, \<open>date\<close> and
  \<open>stripePaymentIntentId\<close> are unique columns is read off the \<open>findUnique\<close> calls
  on them.  \<open>findUnique\<close> returns the row or null; \<open>update\<close> with
  \<open>where: { id }\<close> throws when no row has the id or when it writes a payment intent
  id that is already on another row, which is the value \<open>None\<close> here.
\<close>

definition findUnique_date :: "db \<Rightarrow> string \<Rightarrow> CalendarDay option" where
  "findUnique_date d k = find (\<lambda>r. date r = k) (calendarDay d)"

definition findUnique_id :: "db \<Rightarrow> string \<Rightarrow> CalendarDay option" where
  "findUnique_id d i = find (\<lambda>r. day_id r = i) (calendarDay d)"

definition findUnique_pi :: "db \<Rightarrow> string \<Rightarrow> CalendarDay option" where
  "findUnique_pi d p = find (\<lambda>r. stripePaymentIntentId r = Some p) (calendarDay d)"

definition pi_taken :: "CalendarDay list \<Rightarrow> string \<Rightarrow> string option \<Rightarrow> bool" where
  "pi_taken rows i p =
     (p \<noteq> None \<and> list_ex (\<lambda>r. day_id r \<noteq> i \<and> stripePaymentIntentId r = p) rows)"

definition update_rows ::
  "string \<Rightarrow> (CalendarDay \<Rightarrow> CalendarDay) \<Rightarrow> CalendarDay list \<Rightarrow> CalendarDay list" where
  "update_rows i f rows = map (\<lambda>r. if day_id r = i then f r else r) rows"

definition update_calendarDay ::
  "string \<Rightarrow> (CalendarDay \<Rightarrow> CalendarDay) \<Rightarrow> CalendarDay list \<Rightarrow> CalendarDay list option" where
  "update_calendarDay i f rows =
     (case find (\<lambda>r. day_id r = i) rows of
        None \<Rightarrow> None
      | Some r \<Rightarrow>
          if stripePaymentIntentId (f r) \<noteq> stripePaymentIntentId r
             \<and> pi_taken rows i (stripePaymentIntentId (f r)) then None
          else Some (update_rows i f rows))"

definition create_auditLog :: "AuditLog \<Rightarrow> db \<Rightarrow> db" where
  "create_auditLog e d = d\<lparr>auditLog := auditLog d @ [e]\<rparr>"

text \<open>
  \<open>createAuditLog\<close> of \<open>src/lib/auditLog.ts\<close>: one insert on the shared client,
  outside any transaction.  The insert can throw for reasons that are not in the ledger
  (the connection, a timeout); \<open>accepted\<close> is the reply of the database to it, and
  \<open>None\<close> the throw.  Inside \<open>$transaction\<close> a statement that throws rolls the
  whole transaction back, which is the \<open>Inl\<close> of the transaction bodies below.
\<close>

definition createAuditLog :: "bool \<Rightarrow> AuditLog \<Rightarrow> db \<Rightarrow> db option" where
  "createAuditLog accepted entry d = (if accepted then Some (create_auditLog entry d) else None)"

section \<open>Order numbers (\<open>src/lib/orderNumber.ts\<close>)\<close>

definition generateOrderId :: "db \<Rightarrow> nat \<Rightarrow> string" where
  "generateOrderId d year =
     (let count = length (filter (\<lambda>r. status r = SOLD \<and> orderId r \<noteq> None) (calendarDay d));
          seq = padStart 5 (CHR ''0'') (String_of_nat (count + 1))
      in ''ACF-'' @ String_of_nat year @ ''-'' @ seq)"

section \<open>The payment gateway's webhook (\<open>src/app/api/stripe/webhook/route.ts\<close>)\<close>

text \<open>
  The fields of a Stripe payment intent and charge the handlers read.
  \<open>billingAddressJson\<close> is the value of
  \<open>JSON.parse(pi.metadata.billingAddress || '{}')\<close>, and \<open>''{}''\<close> when that throws.
\<close>

record PaymentIntent =
  pi_id :: string
  amount :: int
  metadata :: "(string \<times> string) list"
  billingAddressJson :: string
  last_payment_error :: "string option"

datatype charge_pi = PiString string | PiObject PaymentIntent | PiNull

record Charge =
  payment_intent :: charge_pi
  amount_refunded :: int

datatype event =
    PaymentIntentSucceeded PaymentIntent
  | PaymentIntentFailed PaymentIntent
  | ChargeRefunded Charge
  | OtherEvent string

text \<open>A handler returns or throws.\<close>

datatype outcome = Returned | Thrown string

text \<open>
  The body of \<open>prisma.$transaction\<close>: it returns a value and the written ledger, or
  throws (\<open>Inl\<close>), and then nothing it wrote is kept.
\<close>

type_synonym 'a tx = "string + ('a \<times> db)"

definition sold_update :: "CalendarDay \<Rightarrow> PaymentIntent \<Rightarrow> string \<Rightarrow> timestamp \<Rightarrow> CalendarDay \<Rightarrow> CalendarDay" where
  "sold_update day pi oid paid r =
     (let md = map_of (metadata pi) in
      r\<lparr>status := SOLD,
        orderId := Some oid,
        amountPaidCents := Some (amount pi),
        paidAt := Some paid,
        stripePaymentIntentId := Some (pi_id pi),
        holdToken := None,
        holdExpiresAt := None,
        buyerFirstName := or_null (buyerFirstName day) (md ''buyerFirstName''),
        buyerLastName := or_null (buyerLastName day) (md ''buyerLastName''),
        buyerEmail := or_null (buyerEmail day) (md ''buyerEmail''),
        buyerPhone := or_null (buyerPhone day) (md ''buyerPhone''),
        billingAddress :=
          (case billingAddress day of Some b \<Rightarrow> Some b | None \<Rightarrow> Some (billingAddressJson pi)),
        contactOptIn := (contactOptIn day \<or> md ''contactOptIn'' = Some ''true''),
        dedicationText := or_null (dedicationText day) (md ''dedicationText'')\<rparr>)"

definition payment_received_entry :: "CalendarDay \<Rightarrow> PaymentIntent \<Rightarrow> string \<Rightarrow> AuditLog" where
  "payment_received_entry day pi oid =
     \<lparr>calendarDayId = day_id day,
      action = PAYMENT_RECEIVED,
      oldValue = Some [(''status'', JStatus (status day))],
      newValue = Some [(''status'', JStatus SOLD), (''orderId'', JStr oid),
                       (''amountPaidCents'', JNum (amount pi))],
      performedBy = ''stripe:'' @ pi_id pi,
      ipAddress = None,
      notesText = Some ''Stripe PaymentIntent succeeded''\<rparr>"

definition payment_succeeded_tx :: "db \<Rightarrow> PaymentIntent \<Rightarrow> string \<Rightarrow> string \<Rightarrow> timestamp \<Rightarrow> unit tx" where
  "payment_succeeded_tx d pi cid oid paid =
     (case findUnique_id d cid of
        None \<Rightarrow> Inl (''CalendarDay not found: '' @ cid)
      | Some day \<Rightarrow>
          if status day \<noteq> CHECKOUT_HOLD \<and> stripePaymentIntentId day \<noteq> Some (pi_id pi)
          then Inr ((), d)
          else
            (case update_calendarDay (day_id day) (sold_update day pi oid paid) (calendarDay d) of
               None \<Rightarrow> Inl ''update failed''
             | Some rows \<Rightarrow>
                 Inr ((), create_auditLog (payment_received_entry day pi oid)
                            (d\<lparr>calendarDay := rows\<rparr>))))"

text \<open>
  After the transaction the handler sends two e-mails; a failure there is caught and
  logged and changes neither the ledger nor the outcome, so the e-mails are left out.
\<close>

definition handlePaymentSucceeded :: "db \<Rightarrow> PaymentIntent \<Rightarrow> timestamp \<Rightarrow> outcome \<times> db" where
  "handlePaymentSucceeded d pi now =
     (let md = map_of (metadata pi) in
      if \<not> truthy (md ''calendarDayId'') \<or> \<not> truthy (md ''date'') then (Returned, d)
      else
        let existing = findUnique_pi d (pi_id pi) in
        if (case existing of None \<Rightarrow> False | Some r \<Rightarrow> status r = SOLD) then (Returned, d)
        else
          let oid = generateOrderId d 2027; paid = now in
          (case payment_succeeded_tx d pi (or_default (md ''calendarDayId'') []) oid paid of
             Inl msg \<Rightarrow> (Thrown msg, d)
           | Inr (_, d') \<Rightarrow> (Returned, d')))"

definition payment_failed_entry :: "CalendarDay \<Rightarrow> PaymentIntent \<Rightarrow> AuditLog" where
  "payment_failed_entry day pi =
     \<lparr>calendarDayId = day_id day,
      action = CHECKOUT_HOLD_EXPIRED,
      oldValue = Some [(''status'', JStatus CHECKOUT_HOLD)],
      newValue = Some [(''status'', JStatus AVAILABLE)],
      performedBy = ''stripe:'' @ pi_id pi,
      ipAddress = None,
      notesText = Some (''Payment failed: '' @
                        or_default (last_payment_error pi) ''unknown reason'')\<rparr>"

definition payment_failed_tx :: "db \<Rightarrow> PaymentIntent \<Rightarrow> string \<Rightarrow> unit tx" where
  "payment_failed_tx d pi cid =
     (case findUnique_id d cid of
        None \<Rightarrow> Inr ((), d)
      | Some day \<Rightarrow>
          if status day \<noteq> CHECKOUT_HOLD then Inr ((), d)
          else
            (case update_calendarDay (day_id day)
                    (\<lambda>r. r\<lparr>status := AVAILABLE, holdToken := None, holdExpiresAt := None,
                            stripePaymentIntentId := None\<rparr>)
                    (calendarDay d) of
               None \<Rightarrow> Inl ''update failed''
             | Some rows \<Rightarrow>
                 Inr ((), create_auditLog (payment_failed_entry day pi) (d\<lparr>calendarDay := rows\<rparr>))))"

definition handlePaymentFailed :: "db \<Rightarrow> PaymentIntent \<Rightarrow> outcome \<times> db" where
  "handlePaymentFailed d pi =
     (let md = map_of (metadata pi) in
      if \<not> truthy (md ''calendarDayId'') then (Returned, d)
      else
        (case payment_failed_tx d pi (or_default (md ''calendarDayId'') []) of
           Inl msg \<Rightarrow> (Thrown msg, d)
         | Inr (_, d') \<Rightarrow> (Returned, d')))"

definition charge_piId :: "Charge \<Rightarrow> string option" where
  "charge_piId charge =
     (case payment_intent charge of
        PiString s \<Rightarrow> Some s
      | PiObject p \<Rightarrow> Some (pi_id p)
      | PiNull \<Rightarrow> None)"

text \<open>The note renders the amount with \<open>toFixed\<close>; here it keeps the cents.\<close>

definition charge_refunded_entry :: "CalendarDay \<Rightarrow> string \<Rightarrow> Charge \<Rightarrow> AuditLog" where
  "charge_refunded_entry day piId charge =
     \<lparr>calendarDayId = day_id day,
      action = REFUND_ISSUED,
      oldValue = Some [(''status'', JStatus (status day))],
      newValue = Some [(''refundedViaStripe'', JBool True)],
      performedBy = ''stripe:'' @ piId,
      ipAddress = None,
      notesText = Some (''Charge refunded via Stripe. Amount in cents: '' @
                        String_of_nat (nat (amount_refunded charge)))\<rparr>"

text \<open>The handler makes its one insert with \<open>createAuditLog\<close>; a throw of the insert is
  a throw of the handler.\<close>

definition handleChargeRefunded :: "db \<Rightarrow> Charge \<Rightarrow> bool \<Rightarrow> outcome \<times> db" where
  "handleChargeRefunded d charge accepted =
     (case charge_piId charge of
        None \<Rightarrow> (Returned, d)
      | Some piId \<Rightarrow>
          if piId = [] then (Returned, d)
          else
            (case findUnique_pi d piId of
               None \<Rightarrow> (Returned, d)
             | Some day \<Rightarrow>
                 (case createAuditLog accepted (charge_refunded_entry day piId charge) d of
                    None \<Rightarrow> (Thrown ''audit insert failed'', d)
                  | Some d' \<Rightarrow> (Returned, d'))))"

text \<open>
  The request as the route sees it: the signature header, the configured secret, and what
  \<open>stripe.webhooks.constructEvent\<close> makes of body, signature and secret: the event,
  or the message of the error it throws.  \<open>auditInsert\<close> is the reply of the database
  to the insert of \<open>handleChargeRefunded\<close>.
\<close>

record webhook_request =
  sig :: "string option"
  webhookSecret :: "string option"
  constructEvent :: "string + event"
  auditInsert :: bool

definition dispatch_event :: "db \<Rightarrow> event \<Rightarrow> timestamp \<Rightarrow> bool \<Rightarrow> outcome \<times> db" where
  "dispatch_event d ev now accepted =
     (case ev of
        PaymentIntentSucceeded pi \<Rightarrow> handlePaymentSucceeded d pi now
      | PaymentIntentFailed pi \<Rightarrow> handlePaymentFailed d pi
      | ChargeRefunded charge \<Rightarrow> handleChargeRefunded d charge accepted
      | OtherEvent _ \<Rightarrow> (Returned, d))"

definition POST_webhook :: "db \<Rightarrow> webhook_request \<Rightarrow> timestamp \<Rightarrow> bool response \<times> db" where
  "POST_webhook d req now =
     (if \<not> truthy (sig req) \<or> \<not> truthy (webhookSecret req) then (Error 400 ''Missing signature'', d)
      else
        (case constructEvent req of
           Inl msg \<Rightarrow> (Error 400 (''Webhook error: '' @ msg), d)
         | Inr ev \<Rightarrow>
             (case dispatch_event d ev now (auditInsert req) of
                (Returned, d') \<Rightarrow> (Json True, d')
              | (Thrown _, d') \<Rightarrow> (Error 500 ''Handler failed'', d'))))"

section \<open>Validation (\<open>src/lib/validation.ts\<close>)\<close>

definition CALENDAR_YEAR :: nat where
  "CALENDAR_YEAR = 2027"

definition is_digit :: "char \<Rightarrow> bool" where
  "is_digit c = (c \<in> set ''0123456789'')"

text \<open>\<open>Number\<close> on a string of decimal digits.\<close>

definition Number_of :: "string \<Rightarrow> nat" where
  "Number_of s = foldl (\<lambda>n c. 10 * n + (of_char c - 48)) 0 s"

text \<open>The regular expression \<open>^\d{4}-\d{2}-\d{2}$\<close>.\<close>

definition date_pattern :: "string \<Rightarrow> bool" where
  "date_pattern s =
     (length s = 10 \<and> list_all is_digit (take 4 s) \<and> s ! 4 = CHR ''-''
      \<and> list_all is_digit (take 2 (drop 5 s)) \<and> s ! 7 = CHR ''-''
      \<and> list_all is_digit (drop 8 s))"

text \<open>
  \<open>Date.UTC(year, month - 1, day)\<close> gives back the same year, month and day exactly
  when the day exists in that month; the year is 2027 at that point, not a leap year.
\<close>

definition days_in_month :: "nat \<Rightarrow> nat" where
  "days_in_month m =
     (if m = 2 then 28 else if m \<in> {4, 6, 9, 11} then 30 else 31)"

definition validateCalendarDate :: "string \<Rightarrow> bool" where
  "validateCalendarDate dateStr =
     (if dateStr = [] \<or> \<not> date_pattern dateStr then False
      else
        let year = Number_of (take 4 dateStr);
            month = Number_of (take 2 (drop 5 dateStr));
            day = Number_of (drop 8 dateStr)
        in if year \<noteq> CALENDAR_YEAR then False
           else if month < 1 \<or> month > 12 then False
           else 1 \<le> day \<and> day \<le> days_in_month month)"

text \<open>
  \<open>validateDedicationText\<close> and \<open>sanitizeDedicationText\<close> test the text with
  regular expressions over Unicode classes.  The handlers below take the two functions
  as arguments (\<open>vd text required emojisAllowed\<close> is the error message of an invalid
  text, \<open>None\<close> for a valid one), so what is proved holds for every verdict they give.
\<close>

type_synonym validator = "string \<Rightarrow> bool \<Rightarrow> bool \<Rightarrow> string option"

type_synonym sanitizer = "string \<Rightarrow> string"

section \<open>Checkout holds (\<open>src/app/api/checkout/hold/route.ts\<close>)\<close>

definition HOLD_DURATION_MS :: int where
  "HOLD_DURATION_MS = 10 * 60 * 1000"

fun status_name :: "DayStatus \<Rightarrow> string" where
  "status_name AVAILABLE = ''AVAILABLE''"
| "status_name CHECKOUT_HOLD = ''CHECKOUT_HOLD''"
| "status_name SOLD = ''SOLD''"
| "status_name ADMIN_HOLD = ''ADMIN_HOLD''"

text \<open>
  What the route reads besides the ledger: the verdict of the rate limiter, the client's
  address, the parsed body (\<open>None\<close> when \<open>request.json()\<close> throws), the two clock
  readings and the token \<open>generateHoldToken\<close> draws.
\<close>

record hold_body =
  hb_date :: "string option"
  hb_holdToken :: "string option"

record hold_request =
  hr_allowed :: bool
  hr_ip :: string
  hr_body :: "hold_body option"
  hr_now :: timestamp
  hr_date_now :: timestamp
  hr_token :: string

record HoldResponse =
  res_holdToken :: string
  res_holdExpiresAt :: timestamp
  res_date :: string

definition sales_window_error :: "AdminSettings option \<Rightarrow> timestamp \<Rightarrow> string option" where
  "sales_window_error settings now =
     (case settings of
        None \<Rightarrow> None
      | Some s \<Rightarrow>
          if (case salesStartDate s of None \<Rightarrow> False | Some t \<Rightarrow> now < t)
          then Some ''Sales have not started yet''
          else if (case salesEndDate s of None \<Rightarrow> False | Some t \<Rightarrow> now > t)
          then Some ''Sales have ended''
          else None)"

definition canHold :: "CalendarDay \<Rightarrow> timestamp \<Rightarrow> bool" where
  "canHold day now =
     (status day = AVAILABLE \<or>
      (status day = CHECKOUT_HOLD \<and>
       (case holdExpiresAt day of None \<Rightarrow> False | Some t \<Rightarrow> t < now)))"

definition hold_created_entry :: "CalendarDay \<Rightarrow> string \<Rightarrow> timestamp \<Rightarrow> AuditLog" where
  "hold_created_entry day ip expires =
     \<lparr>calendarDayId = day_id day,
      action = CHECKOUT_HOLD_CREATED,
      oldValue = Some [(''status'', JStatus (status day))],
      newValue = Some [(''status'', JStatus CHECKOUT_HOLD), (''holdExpiresAt'', JNum expires)],
      performedBy = ''customer-ip:'' @ ip,
      ipAddress = Some ip,
      notesText = None\<rparr>"

definition create_hold_tx :: "db \<Rightarrow> string \<Rightarrow> string \<Rightarrow> timestamp \<Rightarrow> string \<Rightarrow> timestamp \<Rightarrow> unit tx" where
  "create_hold_tx d dateKey ip now token expires =
     (case findUnique_date d dateKey of
        None \<Rightarrow> Inl ''DATE_NOT_FOUND''
      | Some day \<Rightarrow>
          if \<not> canHold day now then Inl (''DATE_UNAVAILABLE:'' @ status_name (status day))
          else
            (case update_calendarDay (day_id day)
                    (\<lambda>r. r\<lparr>status := CHECKOUT_HOLD, holdToken := Some token,
                            holdExpiresAt := Some expires\<rparr>)
                    (calendarDay d) of
               None \<Rightarrow> Inl ''update failed''
             | Some rows \<Rightarrow>
                 Inr ((), create_auditLog (hold_created_entry day ip expires)
                            (d\<lparr>calendarDay := rows\<rparr>))))"

definition POST_hold :: "db \<Rightarrow> hold_request \<Rightarrow> HoldResponse response \<times> db" where
  "POST_hold d req =
     (if \<not> hr_allowed req then (Error 429 ''Too many requests. Please slow down.'', d)
      else
        (case hr_body req of
           None \<Rightarrow> (Error 400 ''Invalid request body'', d)
         | Some body \<Rightarrow>
             if \<not> truthy (hb_date body) \<or> \<not> validateCalendarDate (or_default (hb_date body) [])
             then (Error 400 ''Invalid or missing date'', d)
             else
               let dateStr = or_default (hb_date body) []; now = hr_now req in
               (case sales_window_error (adminSettings d) now of
                  Some msg \<Rightarrow> (Error 403 msg, d)
                | None \<Rightarrow>
                    let holdToken = hr_token req;
                        holdExpiresAt = hr_date_now req + HOLD_DURATION_MS
                    in (case create_hold_tx d dateStr (hr_ip req) now holdToken holdExpiresAt of
                          Inr (_, d') \<Rightarrow>
                            (Json \<lparr>res_holdToken = holdToken, res_holdExpiresAt = holdExpiresAt,
                                   res_date = dateStr\<rparr>, d')
                        | Inl msg \<Rightarrow>
                            if msg = ''DATE_NOT_FOUND'' then (Error 404 ''Date not found'', d)
                            else if take 16 msg = ''DATE_UNAVAILABLE''
                            then (Error 409 ''This date is no longer available'', d)
                            else (Error 500 ''Failed to hold date'', d)))))"

definition hold_released_entry :: "CalendarDay \<Rightarrow> AuditLog" where
  "hold_released_entry day =
     \<lparr>calendarDayId = day_id day,
      action = CHECKOUT_HOLD_EXPIRED,
      oldValue = Some [(''status'', JStatus CHECKOUT_HOLD)],
      newValue = Some [(''status'', JStatus AVAILABLE)],
      performedBy = ''customer'',
      ipAddress = None,
      notesText = Some ''Hold released by customer (navigated away)''\<rparr>"

definition release_hold_tx :: "db \<Rightarrow> string \<Rightarrow> string \<Rightarrow> unit tx" where
  "release_hold_tx d dateKey token =
     (case findUnique_date d dateKey of
        None \<Rightarrow> Inr ((), d)
      | Some day \<Rightarrow>
          if status day \<noteq> CHECKOUT_HOLD \<or> holdToken day \<noteq> Some token then Inr ((), d)
          else
            (case update_calendarDay (day_id day)
                    (\<lambda>r. r\<lparr>status := AVAILABLE, holdToken := None, holdExpiresAt := None\<rparr>)
                    (calendarDay d) of
               None \<Rightarrow> Inl ''update failed''
             | Some rows \<Rightarrow>
                 Inr ((), create_auditLog (hold_released_entry day) (d\<lparr>calendarDay := rows\<rparr>))))"

definition DELETE_hold :: "db \<Rightarrow> hold_body option \<Rightarrow> bool response \<times> db" where
  "DELETE_hold d body_json =
     (case body_json of
        None \<Rightarrow> (Error 400 ''Invalid request body'', d)
      | Some body \<Rightarrow>
          if \<not> truthy (hb_date body) \<or> \<not> truthy (hb_holdToken body)
             \<or> \<not> validateCalendarDate (or_default (hb_date body) [])
          then (Error 400 ''Missing date or holdToken'', d)
          else
            (case release_hold_tx d (or_default (hb_date body) []) (or_default (hb_holdToken body) []) of
               Inr (_, d') \<Rightarrow> (Json True, d')
             | Inl _ \<Rightarrow> (Error 500 ''Failed to release hold'', d)))"

section \<open>Payment intents (\<open>src/app/api/stripe/create-payment-intent/route.ts\<close>)\<close>

text \<open>
  \<open>pr_buyer\<close> is what \<open>buyerInfoSchema.safeParse\<close> returns for the rest of the body
  (\<open>None\<close> when it fails), \<open>pr_stripe\<close> what \<open>stripe.paymentIntents.create\<close>
  answers: the id and client secret of the intent, or the message it throws with.
\<close>

record BuyerData =
  bd_firstName :: string
  bd_lastName :: string
  bd_email :: string
  bd_phone :: "string option"
  bd_billingAddress :: string
  bd_contactOptIn :: bool
  bd_dedicationText :: string

record pi_body =
  pb_date :: "string option"
  pb_holdToken :: "string option"
  pb_buyer :: "BuyerData option"

record pi_request =
  pr_allowed :: bool
  pr_body :: "pi_body option"
  pr_now :: timestamp
  pr_stripe :: "string + (string \<times> string)"

record PaymentIntentResponse =
  res_clientSecret :: string
  res_paymentIntentId :: string
  res_amountCents :: int

definition verify_hold_tx :: "db \<Rightarrow> string \<Rightarrow> string \<Rightarrow> timestamp \<Rightarrow> CalendarDay tx" where
  "verify_hold_tx d dateKey token now =
     (case findUnique_date d dateKey of
        None \<Rightarrow> Inl ''DATE_NOT_FOUND''
      | Some day \<Rightarrow>
          if status day \<noteq> CHECKOUT_HOLD then Inl (''INVALID_STATUS:'' @ status_name (status day))
          else if holdToken day \<noteq> Some token then Inl ''INVALID_HOLD_TOKEN''
          else if (case holdExpiresAt day of None \<Rightarrow> False | Some t \<Rightarrow> t < now)
          then Inl ''HOLD_EXPIRED''
          else Inr (day, d))"

definition payment_intent_error :: "string \<Rightarrow> nat \<times> string" where
  "payment_intent_error msg =
     (if msg = ''DATE_NOT_FOUND'' then (404, ''Date not found'')
      else if take 14 msg = ''INVALID_STATUS''
      then (409, ''This date is no longer on hold. Please start over.'')
      else if msg = ''INVALID_HOLD_TOKEN''
      then (403, ''Your hold token is invalid. Please start over.'')
      else if msg = ''HOLD_EXPIRED''
      then (410, ''Your checkout session has expired. Please select the date again.'')
      else (500, msg))"

definition POST_create_payment_intent ::
  "validator \<Rightarrow> sanitizer \<Rightarrow> db \<Rightarrow> pi_request \<Rightarrow> PaymentIntentResponse response \<times> db" where
  "POST_create_payment_intent vd sanitize d req =
     (if \<not> pr_allowed req then (Error 429 ''Too many requests'', d)
      else
        (case pr_body req of
           None \<Rightarrow> (Error 400 ''Invalid request body'', d)
         | Some body \<Rightarrow>
             if \<not> truthy (pb_date body) \<or> \<not> validateCalendarDate (or_default (pb_date body) [])
             then (Error 400 ''Invalid date'', d)
             else if \<not> truthy (pb_holdToken body) then (Error 400 ''Missing hold token'', d)
             else
               (case pb_buyer body of
                  None \<Rightarrow> (Error 400 ''Invalid form data'', d)
                | Some buyerData \<Rightarrow>
                    let settings = adminSettings d;
                        price = (case settings of None \<Rightarrow> 10000 | Some s \<Rightarrow> priceInCents s)
                    in
                    (case vd (bd_dedicationText buyerData)
                            (case settings of None \<Rightarrow> False | Some s \<Rightarrow> textRequired s)
                            (case settings of None \<Rightarrow> False | Some s \<Rightarrow> emojisAllowed s) of
                       Some err \<Rightarrow> (Error 400 err, d)
                     | None \<Rightarrow>
                         let text = sanitize (bd_dedicationText buyerData) in
                         (case verify_hold_tx d (or_default (pb_date body) [])
                                 (or_default (pb_holdToken body) []) (pr_now req) of
                            Inl msg \<Rightarrow>
                              (Error (fst (payment_intent_error msg)) (snd (payment_intent_error msg)), d)
                          | Inr (day, _) \<Rightarrow>
                              (case pr_stripe req of
                                 Inl msg \<Rightarrow> (Error 500 msg, d)
                               | Inr (intent_id, secret) \<Rightarrow>
                                   (case update_calendarDay (day_id day)
                                           (\<lambda>r. r\<lparr>stripePaymentIntentId := Some intent_id,
                                                   buyerFirstName := Some (bd_firstName buyerData),
                                                   buyerLastName := Some (bd_lastName buyerData),
                                                   buyerEmail := Some (bd_email buyerData),
                                                   buyerPhone :=
                                                     (if truthy (bd_phone buyerData)
                                                      then bd_phone buyerData else None),
                                                   billingAddress := Some (bd_billingAddress buyerData),
                                                   contactOptIn := bd_contactOptIn buyerData,
                                                   dedicationText :=
                                                     (if text = [] then None else Some text)\<rparr>)
                                           (calendarDay d) of
                                      None \<Rightarrow> (Error 500 ''update failed'', d)
                                    | Some rows \<Rightarrow>
                                        (Json \<lparr>res_clientSecret = secret,
                                               res_paymentIntentId = intent_id,
                                               res_amountCents = price\<rparr>,
                                         d\<lparr>calendarDay := rows\<rparr>))))))))"

section \<open>Administrative holds (\<open>/api/admin/holds\<close>)\<close>

text \<open>
  A session is \<open>None\<close> when \<open>getServerSession\<close> finds none, and otherwise carries
  the e-mail address of the signed-in user, if it has one.
\<close>

type_synonym session = "string option option"

definition actor :: "string option \<Rightarrow> string" where
  "actor email = or_default email ''admin''"

record admin_hold_body =
  ab_date :: "string option"
  ab_note :: "string option"

record AdminHoldResponse =
  res_hold_date :: string
  res_hold_status :: DayStatus
  res_hold_adminNote :: "string option"

definition admin_hold_entry :: "CalendarDay \<Rightarrow> string option \<Rightarrow> string option \<Rightarrow> AuditLog" where
  "admin_hold_entry day note email =
     \<lparr>calendarDayId = day_id day,
      action = HOLD_CREATED,
      oldValue = Some [(''status'', JStatus (status day))],
      newValue = Some [(''status'', JStatus ADMIN_HOLD), (''adminNote'', jopt note)],
      performedBy = actor email,
      ipAddress = None,
      notesText = Some (or_default note ''Admin hold created'')\<rparr>"

definition admin_hold_tx :: "db \<Rightarrow> string \<Rightarrow> string option \<Rightarrow> string option \<Rightarrow> CalendarDay tx" where
  "admin_hold_tx d dateKey note email =
     (case findUnique_date d dateKey of
        None \<Rightarrow> Inl ''NOT_FOUND''
      | Some day \<Rightarrow>
          if status day = SOLD then Inl ''ALREADY_SOLD''
          else if status day = ADMIN_HOLD then Inl ''ALREADY_HELD''
          else
            let upd = (\<lambda>r. r\<lparr>status := ADMIN_HOLD,
                              adminNote := (if truthy note then note else None),
                              holdToken := None,
                              holdExpiresAt := None\<rparr>)
            in (case update_calendarDay (day_id day) upd (calendarDay d) of
                  None \<Rightarrow> Inl ''update failed''
                | Some rows \<Rightarrow>
                    Inr (upd day, create_auditLog (admin_hold_entry day note email)
                                    (d\<lparr>calendarDay := rows\<rparr>))))"

definition POST_admin_holds ::
  "db \<Rightarrow> session \<Rightarrow> admin_hold_body option \<Rightarrow> AdminHoldResponse response \<times> db" where
  "POST_admin_holds d session body_json =
     (case session of
        None \<Rightarrow> (Error 401 ''Unauthorized'', d)
      | Some email \<Rightarrow>
          (case body_json of
             None \<Rightarrow> (Error 400 ''Invalid body'', d)
           | Some body \<Rightarrow>
               if \<not> truthy (ab_date body) \<or> \<not> validateCalendarDate (or_default (ab_date body) [])
               then (Error 400 ''Invalid date'', d)
               else
                 (case admin_hold_tx d (or_default (ab_date body) []) (ab_note body) email of
                    Inr (updated, d') \<Rightarrow>
                      (Json \<lparr>res_hold_date = or_default (ab_date body) [],
                             res_hold_status = status updated,
                             res_hold_adminNote = adminNote updated\<rparr>, d')
                  | Inl msg \<Rightarrow>
                      if msg = ''NOT_FOUND'' then (Error 404 ''Day not found'', d)
                      else if msg = ''ALREADY_SOLD''
                      then (Error 409 ''This date is already sold and cannot be held.'', d)
                      else if msg = ''ALREADY_HELD''
                      then (Error 409 ''This date is already on admin hold.'', d)
                      else (Error 500 ''Failed to create hold'', d))))"

definition admin_release_entry :: "CalendarDay \<Rightarrow> string option \<Rightarrow> AuditLog" where
  "admin_release_entry day email =
     \<lparr>calendarDayId = day_id day,
      action = HOLD_RELEASED,
      oldValue = Some [(''status'', JStatus ADMIN_HOLD), (''adminNote'', jopt (adminNote day))],
      newValue = Some [(''status'', JStatus AVAILABLE)],
      performedBy = actor email,
      ipAddress = None,
      notesText = Some ''Admin hold released''\<rparr>"

definition admin_release_tx :: "db \<Rightarrow> string \<Rightarrow> string option \<Rightarrow> unit tx" where
  "admin_release_tx d dateKey email =
     (case findUnique_date d dateKey of
        None \<Rightarrow> Inl ''NOT_FOUND''
      | Some day \<Rightarrow>
          if status day \<noteq> ADMIN_HOLD then Inl ''NOT_HELD''
          else
            (case update_calendarDay (day_id day)
                    (\<lambda>r. r\<lparr>status := AVAILABLE, adminNote := None\<rparr>) (calendarDay d) of
               None \<Rightarrow> Inl ''update failed''
             | Some rows \<Rightarrow>
                 Inr ((), create_auditLog (admin_release_entry day email)
                            (d\<lparr>calendarDay := rows\<rparr>))))"

definition DELETE_admin_holds ::
  "db \<Rightarrow> session \<Rightarrow> admin_hold_body option \<Rightarrow> string response \<times> db" where
  "DELETE_admin_holds d session body_json =
     (case session of
        None \<Rightarrow> (Error 401 ''Unauthorized'', d)
      | Some email \<Rightarrow>
          (case body_json of
             None \<Rightarrow> (Error 400 ''Invalid body'', d)
           | Some body \<Rightarrow>
               if \<not> truthy (ab_date body) \<or> \<not> validateCalendarDate (or_default (ab_date body) [])
               then (Error 400 ''Invalid date'', d)
               else
                 (case admin_release_tx d (or_default (ab_date body) []) email of
                    Inr (_, d') \<Rightarrow> (Json (or_default (ab_date body) []), d')
                  | Inl msg \<Rightarrow>
                      if msg = ''NOT_FOUND'' then (Error 404 ''Day not found'', d)
                      else if msg = ''NOT_HELD''
                      then (Error 409 ''This date is not on admin hold.'', d)
                      else (Error 500 ''Failed to release hold'', d))))"

section \<open>Administrative refund (\<open>/api/admin/refund\<close>)\<close>

text \<open>
  \<open>rq_gateway\<close> is the answer of \<open>stripe.refunds.create\<close> to the one call the
  route can make: the refund, or the message it throws with.  \<open>rq_today\<close> is
  \<open>new Date().toISOString().split('T')[0]\<close>.  The route returns, besides its
  response and the ledger, the calls it made to the gateway.  The dash in the note and in
  the error messages is written \<open>--\<close> or \<open>-\<close>.
\<close>

record refund_body =
  rb_date :: "string option"
  rb_restoreDate :: "bool option"
  rb_reason :: "string option"

record Refund =
  refund_id :: string
  refund_status :: string
  refund_amount :: int

record refund_params =
  rp_payment_intent :: string
  rp_reason :: string
  rp_metadata :: "(string \<times> string) list"

record refund_request =
  rq_session :: session
  rq_body :: "refund_body option"
  rq_gateway :: "string + Refund"
  rq_today :: string

record RefundResponse =
  res_refundId :: string
  res_refundStatus :: string
  res_dateStatus :: DayStatus
  res_amountRefunded :: int

definition refund_entry ::
  "CalendarDay \<Rightarrow> DayStatus \<Rightarrow> Refund \<Rightarrow> bool \<Rightarrow> string \<Rightarrow> string option \<Rightarrow> AuditLog" where
  "refund_entry day newStatus refund restoreDate reason email =
     \<lparr>calendarDayId = day_id day,
      action = REFUND_ISSUED,
      oldValue = Some [(''status'', JStatus SOLD), (''orderId'', jopt (orderId day)),
                       (''amountPaidCents'', jnum_opt (amountPaidCents day))],
      newValue = Some [(''status'', JStatus newStatus), (''stripeRefundId'', JStr (refund_id refund)),
                       (''restored'', JBool restoreDate)],
      performedBy = actor email,
      ipAddress = None,
      notesText = Some (reason @ ''. Stripe refund '' @ refund_id refund @ ''. Date '' @
                        (if restoreDate then ''restored to available'' else ''set to admin hold'') @
                        ''.'')\<rparr>"

definition refund_tx ::
  "db \<Rightarrow> CalendarDay \<Rightarrow> DayStatus \<Rightarrow> Refund \<Rightarrow> bool \<Rightarrow> string \<Rightarrow> string \<Rightarrow> string option \<Rightarrow> unit tx" where
  "refund_tx d day newStatus refund restoreDate reason today email =
     (case update_calendarDay (day_id day)
             (\<lambda>r. r\<lparr>status := newStatus,
                     adminNote := (if restoreDate then None
                                   else Some (''Refunded on '' @ today @ '' -- '' @ reason))\<rparr>)
             (calendarDay d) of
        None \<Rightarrow> Inl ''update failed''
      | Some rows \<Rightarrow>
          Inr ((), create_auditLog (refund_entry day newStatus refund restoreDate reason email)
                     (d\<lparr>calendarDay := rows\<rparr>)))"

definition POST_admin_refund ::
  "db \<Rightarrow> refund_request \<Rightarrow> RefundResponse response \<times> db \<times> refund_params list" where
  "POST_admin_refund d req =
     (case rq_session req of
        None \<Rightarrow> (Error 401 ''Unauthorized'', d, [])
      | Some email \<Rightarrow>
          (case rq_body req of
             None \<Rightarrow> (Error 400 ''Invalid body'', d, [])
           | Some body \<Rightarrow>
               let restoreDate = (case rb_restoreDate body of None \<Rightarrow> False | Some b \<Rightarrow> b);
                   reason = (case rb_reason body of None \<Rightarrow> ''Admin refund'' | Some r \<Rightarrow> r)
               in
               if \<not> truthy (rb_date body) \<or> \<not> validateCalendarDate (or_default (rb_date body) [])
               then (Error 400 ''Invalid date'', d, [])
               else
                 (case findUnique_date d (or_default (rb_date body) []) of
                    None \<Rightarrow> (Error 404 ''Day not found'', d, [])
                  | Some day \<Rightarrow>
                      if status day \<noteq> SOLD
                      then (Error 400 ''This date is not sold - cannot refund.'', d, [])
                      else if \<not> truthy (stripePaymentIntentId day)
                      then (Error 400 ''No Stripe payment found for this date.'', d, [])
                      else
                        let call = \<lparr>rp_payment_intent = or_default (stripePaymentIntentId day) [],
                                     rp_reason = ''requested_by_customer'',
                                     rp_metadata = [(''adminEmail'', actor email), (''reason'', reason),
                                                    (''date'', or_default (rb_date body) []),
                                                    (''orderId'', or_default (orderId day) [])]\<rparr>
                        in
                        (case rq_gateway req of
                           Inl msg \<Rightarrow> (Error 500 msg, d, [call])
                         | Inr refund \<Rightarrow>
                             if refund_status refund \<noteq> ''succeeded'' \<and> refund_status refund \<noteq> ''pending''
                             then (Error 500 (''Stripe refund failed: '' @ refund_status refund), d, [call])
                             else
                               let newStatus = (if restoreDate then AVAILABLE else ADMIN_HOLD) in
                               (case refund_tx d day newStatus refund restoreDate reason
                                       (rq_today req) email of
                                  Inl msg \<Rightarrow> (Error 500 msg, d, [call])
                                | Inr (_, d') \<Rightarrow>
                                    (Json \<lparr>res_refundId = refund_id refund,
                                           res_refundStatus = refund_status refund,
                                           res_dateStatus = newStatus,
                                           res_amountRefunded = refund_amount refund\<rparr>,
                                     d', [call]))))))"

section \<open>Editing the dedication text (\<open>src/app/api/admin/days/[date]/route.ts\<close>)\<close>

record edit_body =
  eb_dedicationText :: "string option"
  eb_reason :: "string option"

text \<open>
  The request with the session, the date of the path and the parsed body, and
  \<open>er_auditInsert\<close>, the reply of the database to the insert of the audit entry.
\<close>

record edit_request =
  er_session :: session
  er_date :: string
  er_body :: "edit_body option"
  er_auditInsert :: bool

definition text_edit_entry ::
  "CalendarDay \<Rightarrow> string option \<Rightarrow> string option \<Rightarrow> string option \<Rightarrow> AuditLog" where
  "text_edit_entry day newText reason email =
     \<lparr>calendarDayId = day_id day,
      action = TEXT_EDIT,
      oldValue = Some [(''dedicationText'', jopt (dedicationText day))],
      newValue = Some [(''dedicationText'', jopt newText)],
      performedBy = actor email,
      ipAddress = None,
      notesText = Some (or_default reason ''Admin edited dedication text'')\<rparr>"

text \<open>
  The update and the insert are two statements on the shared client, one after the other
  and in no transaction.  When the insert throws, the route's \<open>catch\<close> answers 500 and
  the update stays.
\<close>

definition PATCH_admin_days ::
  "validator \<Rightarrow> sanitizer \<Rightarrow> db \<Rightarrow> edit_request \<Rightarrow> string option response \<times> db" where
  "PATCH_admin_days vd sanitize d req =
     (case er_session req of
        None \<Rightarrow> (Error 401 ''Unauthorized'', d)
      | Some email \<Rightarrow>
          if \<not> validateCalendarDate (er_date req) then (Error 400 ''Invalid date'', d)
          else
            (case er_body req of
               None \<Rightarrow> (Error 400 ''Invalid body'', d)
             | Some body \<Rightarrow>
                 let text = (case eb_dedicationText body of None \<Rightarrow> [] | Some t \<Rightarrow> t);
                     settings = adminSettings d
                 in
                 (case vd text False (case settings of None \<Rightarrow> True | Some s \<Rightarrow> emojisAllowed s) of
                    Some err \<Rightarrow> (Error 400 err, d)
                  | None \<Rightarrow>
                      let sanitized = sanitize text;
                          newText = (if sanitized = [] then None else Some sanitized)
                      in
                      (case findUnique_date d (er_date req) of
                         None \<Rightarrow> (Error 404 ''Day not found'', d)
                       | Some day \<Rightarrow>
                           if status day \<noteq> SOLD
                           then (Error 400 ''Can only edit dedication text for sold days.'', d)
                           else
                             (case update_calendarDay (day_id day)
                                     (\<lambda>r. r\<lparr>dedicationText := newText\<rparr>) (calendarDay d) of
                                None \<Rightarrow> (Error 500 ''Failed to update'', d)
                              | Some rows \<Rightarrow>
                                  (case createAuditLog (er_auditInsert req)
                                          (text_edit_entry day newText (eb_reason body) email)
                                          (d\<lparr>calendarDay := rows\<rparr>) of
                                     None \<Rightarrow>
                                       (Error 500 ''Failed to update'', d\<lparr>calendarDay := rows\<rparr>)
                                   | Some d' \<Rightarrow> (Json newText, d')))))))"

section \<open>The public calendar (\<open>/api/calendar\<close>)\<close>

record PublicCalendarDay =
  pub_id :: string
  pub_date :: string
  pub_status :: DayStatus
  pub_dedicationText :: "string option"
  pub_holdExpiresAt :: "timestamp option"

record CalendarResponse =
  res_days :: "PublicCalendarDay list"
  res_salesStatus :: string
  res_priceInCents :: int
  res_year :: nat

text \<open>The \<open>where\<close> clause of the first query: held rows whose expiry is before \<open>now\<close>
  (a null expiry matches no comparison).\<close>

definition is_expired_hold :: "timestamp \<Rightarrow> CalendarDay \<Rightarrow> bool" where
  "is_expired_hold now r =
     (status r = CHECKOUT_HOLD \<and> (case holdExpiresAt r of None \<Rightarrow> False | Some t \<Rightarrow> t < now))"

definition hold_expired_entry :: "CalendarDay \<Rightarrow> AuditLog" where
  "hold_expired_entry day =
     \<lparr>calendarDayId = day_id day,
      action = CHECKOUT_HOLD_EXPIRED,
      oldValue = Some [(''status'', JStatus CHECKOUT_HOLD), (''holdToken'', jopt (holdToken day))],
      newValue = Some [(''status'', JStatus AVAILABLE)],
      performedBy = ''system'',
      ipAddress = None,
      notesText = Some ''Checkout hold expired automatically''\<rparr>"

definition expire_row :: "CalendarDay \<Rightarrow> CalendarDay" where
  "expire_row r = r\<lparr>status := AVAILABLE, holdToken := None, holdExpiresAt := None\<rparr>"

text \<open>The loop over the expired holds, inside one transaction.\<close>

fun expire_holds_tx :: "CalendarDay list \<Rightarrow> db \<Rightarrow> unit tx" where
  "expire_holds_tx [] d = Inr ((), d)"
| "expire_holds_tx (day # rest) d =
     (case update_calendarDay (day_id day) expire_row (calendarDay d) of
        None \<Rightarrow> Inl ''update failed''
      | Some rows \<Rightarrow>
          expire_holds_tx rest (create_auditLog (hold_expired_entry day) (d\<lparr>calendarDay := rows\<rparr>)))"

definition getSalesStatus :: "AdminSettings option \<Rightarrow> timestamp \<Rightarrow> string" where
  "getSalesStatus settings now =
     (case settings of
        None \<Rightarrow> ''unknown''
      | Some s \<Rightarrow>
          if (case salesStartDate s of None \<Rightarrow> False | Some t \<Rightarrow> now < t) then ''not_started''
          else if (case salesEndDate s of None \<Rightarrow> False | Some t \<Rightarrow> now > t) then ''ended''
          else ''open'')"

definition public_day :: "CalendarDay \<Rightarrow> PublicCalendarDay" where
  "public_day day =
     \<lparr>pub_id = day_id day,
      pub_date = date day,
      pub_status = status day,
      pub_dedicationText = (if status day = SOLD then dedicationText day else None),
      pub_holdExpiresAt = (if status day = CHECKOUT_HOLD then holdExpiresAt day else None)\<rparr>"

text \<open>
  The second query: the rows of the calendar year, by date.  On ISO days the order of the
  strings is the order of the dates, and the year's first day bounds it.
\<close>

definition days_of_year :: "db \<Rightarrow> nat \<Rightarrow> CalendarDay list" where
  "days_of_year d year =
     sort_key date
       (filter (\<lambda>r. String_of_nat year @ ''-01-01'' \<le> date r
                     \<and> date r < String_of_nat (year + 1) @ ''-01-01'')
               (calendarDay d))"

text \<open>
  The route reads the verdict of the rate limiter and the clock twice: \<open>now\<close> for the
  expiry, \<open>now_status\<close> in \<open>getSalesStatus\<close>.
\<close>

definition GET_calendar ::
  "db \<Rightarrow> bool \<Rightarrow> timestamp \<Rightarrow> timestamp \<Rightarrow> CalendarResponse response \<times> db" where
  "GET_calendar d allowed now now_status =
     (if \<not> allowed then (Error 429 ''Too many requests'', d)
      else
        let expiredHolds = filter (is_expired_hold now) (calendarDay d) in
        (case (if length expiredHolds > 0 then expire_holds_tx expiredHolds d else Inr ((), d)) of
           Inl _ \<Rightarrow> (Error 500 ''Failed to load calendar'', d)
         | Inr (_, d') \<Rightarrow>
             let settings = adminSettings d';
                 year = (case settings of None \<Rightarrow> 2027 | Some s \<Rightarrow> calendarYear s);
                 days = days_of_year d' year
             in (Json \<lparr>res_days = map public_day days,
                        res_salesStatus = getSalesStatus settings now_status,
                        res_priceInCents =
                          (case settings of None \<Rightarrow> 10000 | Some s \<Rightarrow> priceInCents s),
                        res_year = year\<rparr>, d')))"

section \<open>Histories of operations\<close>

text \<open>
  The operations of the shop on the ledger, each with what its route reads from the
  request and from its collaborators, and the ledger after a sequence of them, one
  after the other.
\<close>

datatype operation =
    CreateHold hold_request
  | ReleaseHold "hold_body option"
  | ReadCalendar bool timestamp timestamp
  | CreatePaymentIntent pi_request
  | CreateAdminHold session "admin_hold_body option"
  | ReleaseAdminHold session "admin_hold_body option"
  | GatewayEvent webhook_request timestamp
  | AdminRefund refund_request
  | EditDedicationText edit_request

fun perform :: "validator \<Rightarrow> sanitizer \<Rightarrow> db \<Rightarrow> operation \<Rightarrow> db" where
  "perform vd sn d (CreateHold req) = snd (POST_hold d req)"
| "perform vd sn d (ReleaseHold body) = snd (DELETE_hold d body)"
| "perform vd sn d (ReadCalendar allowed now now_status) = snd (GET_calendar d allowed now now_status)"
| "perform vd sn d (CreatePaymentIntent req) = snd (POST_create_payment_intent vd sn d req)"
| "perform vd sn d (CreateAdminHold session body) = snd (POST_admin_holds d session body)"
| "perform vd sn d (ReleaseAdminHold session body) = snd (DELETE_admin_holds d session body)"
| "perform vd sn d (GatewayEvent req now) = snd (POST_webhook d req now)"
| "perform vd sn d (AdminRefund req) = fst (snd (POST_admin_refund d req))"
| "perform vd sn d (EditDedicationText req) = snd (PATCH_admin_days vd sn d req)"


definition run :: "validator \<Rightarrow> sanitizer \<Rightarrow> db \<Rightarrow> operation list \<Rightarrow> db" where
  "run vd sn d ops = foldl (perform vd sn) d ops"

section \<open>Properties of a ledger\<close>

text \<open>The unique columns the handlers rely on: no two rows share an id, and no two
  rows share a payment intent id.\<close>

definition ids_unique :: "db \<Rightarrow> bool" where
  "ids_unique d = distinct (map day_id (calendarDay d))"

definition schema_ok :: "db \<Rightarrow> bool" where
  "schema_ok d =
     (distinct (map day_id (calendarDay d)) \<and>
      distinct (List.map_filter stripePaymentIntentId (calendarDay d)))"

text \<open>The hold fields are set on a row in \<open>CHECKOUT_HOLD\<close> and on no other.\<close>

definition hold_fields_ok :: "CalendarDay \<Rightarrow> bool" where
  "hold_fields_ok r =
     (if status r = CHECKOUT_HOLD then holdToken r \<noteq> None \<and> holdExpiresAt r \<noteq> None
      else holdToken r = None \<and> holdExpiresAt r = None)"

text \<open>A sold row carries its order number and payment time.\<close>

definition sale_fields_set :: "CalendarDay \<Rightarrow> bool" where
  "sale_fields_set r = (status r = SOLD \<longrightarrow> orderId r \<noteq> None \<and> paidAt r \<noteq> None)"

definition ledger_invariant :: "db \<Rightarrow> bool" where
  "ledger_invariant d =
     (ids_unique d \<and> list_all (\<lambda>r. hold_fields_ok r \<and> sale_fields_set r) (calendarDay d))"

text \<open>The two invariants on a row as the data model words them, each an equivalence.\<close>

definition hold_fields_iff :: "CalendarDay \<Rightarrow> bool" where
  "hold_fields_iff r =
     ((holdToken r \<noteq> None \<and> holdExpiresAt r \<noteq> None) = (status r = CHECKOUT_HOLD))"

definition sale_fields_iff :: "CalendarDay \<Rightarrow> bool" where
  "sale_fields_iff r = ((orderId r \<noteq> None \<and> paidAt r \<noteq> None) = (status r = SOLD))"

text \<open>The state a snapshot of an audit entry records, and the state of a row.\<close>

definition entry_status :: "jobj option \<Rightarrow> DayStatus option" where
  "entry_status v =
     (case v of
        None \<Rightarrow> None
      | Some obj \<Rightarrow> (case map_of obj ''status'' of Some (JStatus s) \<Rightarrow> Some s | _ \<Rightarrow> None))"

definition status_of :: "db \<Rightarrow> string \<Rightarrow> DayStatus option" where
  "status_of d i = map_option status (findUnique_id d i)"

text \<open>The entries a step from \<open>d\<close> to \<open>d'\<close> added to the audit table.\<close>

definition new_entries :: "db \<Rightarrow> db \<Rightarrow> AuditLog list" where
  "new_entries d d' = drop (length (auditLog d)) (auditLog d')"







definition has_payment_ref :: "db \<Rightarrow> string \<Rightarrow> bool" where
  "has_payment_ref d p = list_ex (\<lambda>r. stripePaymentIntentId r = Some p) (calendarDay d)"

definition count_action :: "audit_action \<Rightarrow> db \<Rightarrow> nat" where
  "count_action a d = length (filter (\<lambda>e. action e = a) (auditLog d))"

text \<open>The order numbers of the sales, as their \<open>PAYMENT_RECEIVED\<close> entries record them.\<close>

definition finalized_order_refs :: "db \<Rightarrow> jval option list" where
  "finalized_order_refs d =
     map (\<lambda>e. case newValue e of None \<Rightarrow> None | Some obj \<Rightarrow> map_of obj ''orderId'')
         (filter (\<lambda>e. action e = PAYMENT_RECEIVED) (auditLog d))"

text \<open>The rows the public calendar lists: those whose date lies in the calendar year of the
  settings.\<close>

definition in_calendar_year :: "db \<Rightarrow> CalendarDay \<Rightarrow> bool" where
  "in_calendar_year d r =
     (let year = (case adminSettings d of None \<Rightarrow> 2027 | Some s \<Rightarrow> calendarYear s)
      in String_of_nat year @ ''-01-01'' \<le> date r \<and> date r < String_of_nat (year + 1) @ ''-01-01'')"

text \<open>
  An answer of the public calendar shows the row \<open>r\<close> as available: it is a list of
  days, one of them has the id and date of \<open>r\<close>, the state \<open>AVAILABLE\<close> and neither
  text nor expiry, and every day in it with the id of \<open>r\<close> is \<open>AVAILABLE\<close>.
\<close>

definition shown_available :: "CalendarResponse response \<Rightarrow> CalendarDay \<Rightarrow> bool" where
  "shown_available res r =
     (case res of
        Error _ _ \<Rightarrow> False
      | Json body \<Rightarrow>
          list_ex (\<lambda>p. pub_id p = day_id r \<and> pub_date p = date r \<and> pub_status p = AVAILABLE \<and>
                        pub_dedicationText p = None \<and> pub_holdExpiresAt p = None) (res_days body) \<and>
          list_all (\<lambda>p. pub_id p = day_id r \<longrightarrow> pub_status p = AVAILABLE) (res_days body))"

text \<open>What the public calendar may show of a row.\<close>

definition public_view ::
  "CalendarDay \<Rightarrow> string \<times> string \<times> DayStatus \<times> string option \<times> timestamp option" where
  "public_view r =
     (day_id r, date r, status r,
      if status r = SOLD then dedicationText r else None,
      if status r = CHECKOUT_HOLD then holdExpiresAt r else None)"

section \<open>Example ledgers and requests\<close>

text \<open>
  The ledger as \<open>prisma/seed.ts\<close> creates it (every day \<open>AVAILABLE\<close>, nothing else
  set), cut down to two days, and requests of a buyer, the gateway and an administrator
  against it.  The dedication texts of the examples are valid and already trimmed, so
  \<open>accept_text\<close> and \<open>keep_text\<close> are what validation and sanitising do on them.
\<close>

definition seed_day :: "string \<Rightarrow> string \<Rightarrow> CalendarDay" where
  "seed_day i k =
     \<lparr>day_id = i, date = k, status = AVAILABLE, dedicationText = None, buyerFirstName = None,
      buyerLastName = None, buyerEmail = None, buyerPhone = None, billingAddress = None,
      contactOptIn = False, stripePaymentIntentId = None, orderId = None,
      amountPaidCents = None, paidAt = None, holdToken = None, holdExpiresAt = None,
      adminNote = None\<rparr>"

definition seed_settings :: AdminSettings where
  "seed_settings =
     \<lparr>emojisAllowed = False, textRequired = False, priceInCents = 10000, calendarYear = 2027,
      salesStartDate = None, salesEndDate = None\<rparr>"

definition seed_db :: db where
  "seed_db =
     \<lparr>calendarDay = [seed_day ''d1'' ''2027-03-15'', seed_day ''d2'' ''2027-03-16''],
      auditLog = [], adminSettings = Some seed_settings\<rparr>"

definition accept_text :: validator where
  "accept_text text required emojis = None"

definition keep_text :: sanitizer where
  "keep_text text = text"

definition ex_buyer :: BuyerData where
  "ex_buyer =
     \<lparr>bd_firstName = ''Ada'', bd_lastName = ''Byron'', bd_email = ''ada@example.org'',
      bd_phone = None, bd_billingAddress = ''{}'', bd_contactOptIn = False,
      bd_dedicationText = ''Happy Day''\<rparr>"

definition ex_hold :: "string \<Rightarrow> string \<Rightarrow> timestamp \<Rightarrow> operation" where
  "ex_hold k token now =
     CreateHold \<lparr>hr_allowed = True, hr_ip = ''10.0.0.1'',
                 hr_body = Some \<lparr>hb_date = Some k, hb_holdToken = None\<rparr>,
                 hr_now = now, hr_date_now = now, hr_token = token\<rparr>"

definition ex_intent :: "string \<Rightarrow> string \<Rightarrow> string \<Rightarrow> timestamp \<Rightarrow> operation" where
  "ex_intent k token intent now =
     CreatePaymentIntent
       \<lparr>pr_allowed = True,
        pr_body = Some \<lparr>pb_date = Some k, pb_holdToken = Some token, pb_buyer = Some ex_buyer\<rparr>,
        pr_now = now, pr_stripe = Inr (intent, ''secret'')\<rparr>"

definition ex_pi :: "string \<Rightarrow> string \<Rightarrow> string \<Rightarrow> PaymentIntent" where
  "ex_pi intent i k =
     \<lparr>pi_id = intent, amount = 10000,
      metadata = [(''date'', k), (''calendarDayId'', i)],
      billingAddressJson = ''{}'', last_payment_error = None\<rparr>"

definition ex_signed :: "event \<Rightarrow> webhook_request" where
  "ex_signed ev = \<lparr>sig = Some ''t=1,v1=ab'', webhookSecret = Some ''whsec'', constructEvent = Inr ev,
                   auditInsert = True\<rparr>"

definition ex_paid :: "string \<Rightarrow> string \<Rightarrow> string \<Rightarrow> timestamp \<Rightarrow> operation" where
  "ex_paid intent i k now = GatewayEvent (ex_signed (PaymentIntentSucceeded (ex_pi intent i k))) now"

definition ex_refund_request :: "string \<Rightarrow> bool \<Rightarrow> refund_request" where
  "ex_refund_request k restore =
     \<lparr>rq_session = Some (Some ''admin@example.org''),
      rq_body = Some \<lparr>rb_date = Some k, rb_restoreDate = Some restore, rb_reason = Some ''duplicate''\<rparr>,
      rq_gateway = Inr \<lparr>refund_id = ''re_1'', refund_status = ''succeeded'', refund_amount = 10000\<rparr>,
      rq_today = ''2026-11-02''\<rparr>"

definition first_sale :: "operation list" where
  "first_sale =
     [ex_hold ''2027-03-15'' ''T1'' 1000,
      ex_intent ''2027-03-15'' ''T1'' ''pi_1'' 2000,
      ex_paid ''pi_1'' ''d1'' ''2027-03-15'' 3000]"

definition refund_then_sale :: "operation list" where
  "refund_then_sale =
     first_sale @
     [AdminRefund (ex_refund_request ''2027-03-15'' True),
      ex_hold ''2027-03-16'' ''T2'' 5000,
      ex_intent ''2027-03-16'' ''T2'' ''pi_2'' 6000,
      ex_paid ''pi_2'' ''d2'' ''2027-03-16'' 7000]"

definition ex_orphan_pi :: "string \<Rightarrow> PaymentIntent" where
  "ex_orphan_pi intent =
     \<lparr>pi_id = intent, amount = 10000, metadata = [(''date'', ''2027-03-15'')],
      billingAddressJson = ''{}'', last_payment_error = None\<rparr>"

definition ex_charge :: "string \<Rightarrow> Charge" where
  "ex_charge intent = \<lparr>payment_intent = PiString intent, amount_refunded = 10000\<rparr>"

definition held_ledger :: db where
  "held_ledger = run accept_text keep_text seed_db
     [ex_hold ''2027-03-15'' ''T1'' 1000, ex_intent ''2027-03-15'' ''T1'' ''pi_1'' 2000]"

definition sold_ledger :: db where
  "sold_ledger = run accept_text keep_text seed_db first_sale"

definition sale_then_refund :: "operation list" where
  "sale_then_refund = first_sale @ [AdminRefund (ex_refund_request ''2027-03-15'' True)]"



definition ex_failed_refund_request :: refund_request where
  "ex_failed_refund_request =
     \<lparr>rq_session = Some (Some ''admin@example.org''),
      rq_body = Some \<lparr>rb_date = Some ''2027-03-15'', rb_restoreDate = Some True, rb_reason = None\<rparr>,
      rq_gateway = Inr \<lparr>refund_id = ''re_2'', refund_status = ''failed'', refund_amount = 0\<rparr>,
      rq_today = ''2026-11-02''\<rparr>"

definition ex_private_ledger :: db where
  "ex_private_ledger =
     sold_ledger\<lparr>calendarDay :=
       map (\<lambda>r. r\<lparr>buyerFirstName := Some ''Grace'', buyerLastName := Some ''Hopper'',
                     buyerEmail := Some ''grace@example.org'', buyerPhone := Some ''555-0100'',
                     billingAddress := Some ''Albany NY'',
                     stripePaymentIntentId := map_option (\<lambda>p. p @ ''x'') (stripePaymentIntentId r),
                     adminNote := Some ''vip''\<rparr>)
           (calendarDay sold_ledger)\<rparr>"

section \<open>Lookups and updates\<close>

lemma find_None_iff_ex: "find P xs = None \<longleftrightarrow> \<not> list_ex P xs"
  by (induction xs) auto

lemma find_Some_mem: "find P xs = Some x \<Longrightarrow> x \<in> set xs \<and> P x"
  by (induction xs) (auto split: if_splits)

lemma same_id_same_row:
  assumes "distinct (map day_id rows)" and "r \<in> set rows" and "r' \<in> set rows"
    and "day_id r = day_id r'"
  shows "r = r'"
  using assms by (meson distinct_map inj_onD)


lemma update_rows_ids:
  "(\<And>r. day_id (f r) = day_id r) \<Longrightarrow> map day_id (update_rows i f rows) = map day_id rows"
  by (induction rows) (auto simp: update_rows_def)

lemma update_rows_length [simp]: "length (update_rows i f rows) = length rows"
  by (simp add: update_rows_def)

lemma update_calendarDay_SomeD:
  "update_calendarDay i f rows = Some rows' \<Longrightarrow> rows' = update_rows i f rows"
  by (auto simp: update_calendarDay_def split: option.splits if_splits)

lemma update_calendarDay_same_pi:
  assumes "r \<in> set rows" and "\<And>x. stripePaymentIntentId (f x) = stripePaymentIntentId x"
  shows "update_calendarDay (day_id r) f rows = Some (update_rows (day_id r) f rows)"
proof (cases "find (\<lambda>x. day_id x = day_id r) rows")
  case None
  then show ?thesis using assms(1) by (auto simp: find_None_iff)
next
  case (Some x)
  then show ?thesis using assms(2) by (simp add: update_calendarDay_def)
qed

lemma update_rows_unique:
  assumes "distinct (map day_id rows)" and "day \<in> set rows"
  shows "update_rows (day_id day) f rows = map (\<lambda>r. if r = day then f r else r) rows"
  unfolding update_rows_def
  using same_id_same_row[OF assms(1) _ assms(2)] by (intro map_cong) auto

lemma list_all_update_rows:
  assumes "list_all P rows" and "distinct (map day_id rows)" and "day \<in> set rows" and "P (f day)"
  shows "list_all P (update_rows (day_id day) f rows)"
  using assms by (auto simp: update_rows_unique list_all_iff)

lemma ledger_invariant_update:
  assumes "ledger_invariant d" and "day \<in> set (calendarDay d)"
    and "\<And>r. day_id (f r) = day_id r"
    and "hold_fields_ok (f day)" and "sale_fields_set (f day)"
  shows "ledger_invariant (d\<lparr>calendarDay := update_rows (day_id day) f (calendarDay d)\<rparr>)"
  using assms list_all_update_rows[of "\<lambda>r. hold_fields_ok r \<and> sale_fields_set r" "calendarDay d" day f]
  by (simp add: ledger_invariant_def ids_unique_def update_rows_ids)

lemma ledger_invariant_audit [simp]:
  "ledger_invariant (create_auditLog e d) = ledger_invariant d"
  by (simp add: ledger_invariant_def ids_unique_def create_auditLog_def)

lemma ledger_invariant_row:
  "ledger_invariant d \<Longrightarrow> r \<in> set (calendarDay d) \<Longrightarrow> hold_fields_ok r \<and> sale_fields_set r"
  by (auto simp: ledger_invariant_def list_all_iff)

lemma findUnique_date_mem: "findUnique_date d k = Some r \<Longrightarrow> r \<in> set (calendarDay d)"
  by (auto simp: findUnique_date_def dest: find_Some_mem)

lemma findUnique_id_mem: "findUnique_id d k = Some r \<Longrightarrow> r \<in> set (calendarDay d)"
  by (auto simp: findUnique_id_def dest: find_Some_mem)

lemma create_auditLog_neq: "create_auditLog e d' \<noteq> d" if "auditLog d' = auditLog d"
proof
  assume "create_auditLog e d' = d"
  then have "auditLog (create_auditLog e d') = auditLog d" by simp
  then show False using that by (simp add: create_auditLog_def)
qed

lemma pi_distinct_same_row:
  assumes "distinct (List.map_filter stripePaymentIntentId rows)"
    and "r \<in> set rows" and "r' \<in> set rows"
    and "stripePaymentIntentId r = Some p" and "stripePaymentIntentId r' = Some p"
  shows "r = r'"
  using assms
proof (induction rows)
  case Nil
  then show ?case by simp
next
  case (Cons x xs)
  have in_set: "p \<in> set (List.map_filter stripePaymentIntentId xs)"
    if "y \<in> set xs" "stripePaymentIntentId y = Some p" for y
    using that by (auto simp: map_filter_def intro!: image_eqI[where x=y])
  show ?case
    using Cons in_set
    by (cases "stripePaymentIntentId x") (auto simp: map_filter_simps)
qed

lemma find_all_sold:
  assumes "\<And>r. r \<in> set rows \<Longrightarrow> P r \<Longrightarrow> Q r" and "x \<in> set rows" and "P x"
  shows "\<exists>r. find P rows = Some r \<and> Q r"
proof (cases "find P rows")
  case None
  then show ?thesis using assms(2,3) by (auto simp: find_None_iff)
next
  case (Some r)
  then show ?thesis using assms(1) find_Some_mem[OF Some] by auto
qed

lemma count_action_append:
  "auditLog d' = auditLog d @ [e] \<Longrightarrow>
   count_action a d' = count_action a d + (if action e = a then 1 else 0)"
  by (simp add: count_action_def)

lemma find_update_rows:
  assumes "find (\<lambda>r. day_id r = i) rows = Some day" and "\<And>r. day_id (f r) = day_id r"
  shows "find (\<lambda>r. day_id r = i) (update_rows i f rows) = Some (f day)"
  using assms by (induction rows) (auto simp: update_rows_def)

lemma list_all2_map_self:
  "(\<And>x. x \<in> set xs \<Longrightarrow> P x (g x)) \<Longrightarrow> list_all2 P xs (map g xs)"
  by (induction xs) auto


lemma expire_row_simps [simp]:
  "day_id (expire_row r) = day_id r"
  "stripePaymentIntentId (expire_row r) = stripePaymentIntentId r"
  "status (expire_row r) = AVAILABLE"
  "holdExpiresAt (expire_row r) = None"
  "expire_row (expire_row r) = expire_row r"
  by (simp_all add: expire_row_def)

lemma sold_update_id [simp]: "day_id (sold_update day pi oid paid r) = day_id r"
  by (simp add: sold_update_def Let_def)

section \<open>The unique columns stay unique\<close>

text \<open>
  An update that goes through keeps the ids as they are and the payment intent ids
  distinct, so every operation, and every history of operations, leads from a ledger
  whose unique columns are unique to another one.
\<close>

lemma map_filter_pi_set:
  "set (List.map_filter stripePaymentIntentId rows)
     = {p. \<exists>r \<in> set rows. stripePaymentIntentId r = Some p}"
  by (auto simp: map_filter_def intro!: image_eqI)

lemma distinct_pi_update:
  assumes "distinct (List.map_filter stripePaymentIntentId rows)"
    and "\<And>r. r \<in> set rows \<Longrightarrow> day_id r = i \<Longrightarrow>
           stripePaymentIntentId (f r) = stripePaymentIntentId r \<or> stripePaymentIntentId (f r) = None \<or>
           (\<forall>x \<in> set rows. stripePaymentIntentId x = stripePaymentIntentId (f r) \<longrightarrow> x = r)"
    and "distinct (map day_id rows)"
  shows "distinct (List.map_filter stripePaymentIntentId (update_rows i f rows))"
  using assms
proof (induction rows)
  case Nil
  then show ?case by (simp add: update_rows_def)
next
  case (Cons a rows)
  have IH: "distinct (List.map_filter stripePaymentIntentId (update_rows i f rows))"
  proof (rule Cons.IH)
    show "distinct (List.map_filter stripePaymentIntentId rows)"
      using Cons.prems(1) by (cases "stripePaymentIntentId a") simp_all
    show "distinct (map day_id rows)" using Cons.prems(3) by simp
    fix r assume r: "r \<in> set rows" "day_id r = i"
    then show "stripePaymentIntentId (f r) = stripePaymentIntentId r \<or> stripePaymentIntentId (f r) = None \<or>
           (\<forall>x \<in> set rows. stripePaymentIntentId x = stripePaymentIntentId (f r) \<longrightarrow> x = r)"
      using Cons.prems(2)[of r] by auto
  qed
  show ?case
  proof (cases "day_id a = i")
    case True
    then have rest: "update_rows i f rows = rows"
    proof -
      have "day_id x \<noteq> i" if "x \<in> set rows" for x
      proof -
        have "day_id a \<notin> set (map day_id rows)" using Cons.prems(3) by simp
        moreover have "day_id x \<in> set (map day_id rows)" using that by simp
        ultimately show ?thesis using True by metis
      qed
      then show ?thesis by (simp add: update_rows_def map_idI)
    qed
    show ?thesis
    proof (cases "stripePaymentIntentId (f a)")
      case None
      then show ?thesis using IH True by (simp add: update_rows_def)
    next
      case (Some p)
      have "p \<notin> set (List.map_filter stripePaymentIntentId rows)"
      proof
        assume "p \<in> set (List.map_filter stripePaymentIntentId rows)"
        then obtain x where x: "x \<in> set rows" "stripePaymentIntentId x = Some p"
          by (auto simp: map_filter_pi_set)
        from Cons.prems(2)[of a] True Some
        consider "stripePaymentIntentId a = Some p"
          | "\<forall>x \<in> set (a # rows). stripePaymentIntentId x = Some p \<longrightarrow> x = a"
          by auto
        then show False
        proof cases
          case 1
          then show False using Cons.prems(1) x
            by (auto simp: map_filter_pi_set)
        next
          case 2
          then have "x = a" using x by auto
          then show False using Cons.prems(3) x(1) by auto
        qed
      qed
      then show ?thesis
        using Some True rest Cons.prems(1)
        by (cases "stripePaymentIntentId a") (auto simp: update_rows_def)
    qed
  next
    case False
    show ?thesis
    proof (cases "stripePaymentIntentId a")
      case None
      then show ?thesis using IH False by (simp add: update_rows_def)
    next
      case (Some p)
      have "p \<notin> set (List.map_filter stripePaymentIntentId (update_rows i f rows))"
      proof
        assume "p \<in> set (List.map_filter stripePaymentIntentId (update_rows i f rows))"
        then obtain y where y: "y \<in> set (update_rows i f rows)" "stripePaymentIntentId y = Some p"
          by (auto simp: map_filter_pi_set)
        then obtain r where r: "r \<in> set rows" "y = (if day_id r = i then f r else r)"
          by (auto simp: update_rows_def)
        have old: "p \<notin> set (List.map_filter stripePaymentIntentId rows)"
          using Cons.prems(1) Some by simp
        show False
        proof (cases "day_id r = i")
          case True
          then have fy: "stripePaymentIntentId (f r) = Some p" using r(2) y(2) by simp
          from Cons.prems(2)[of r] r(1) True fy
          consider "stripePaymentIntentId r = Some p"
            | "\<forall>x \<in> set (a # rows). stripePaymentIntentId x = Some p \<longrightarrow> x = r"
            by auto
          then show False
          proof cases
            case 1
            then show False using old r(1) by (auto simp: map_filter_pi_set)
          next
            case 2
            then have "a = r" using Some by auto
            then show False using True False by simp
          qed
        next
          case False
          then show False using old r y(2) by (auto simp: map_filter_pi_set)
        qed
      qed
      then show ?thesis using Some False IH by (simp add: update_rows_def)
    qed
  qed
qed

lemma schema_ok_update:
  assumes "schema_ok d" and "update_calendarDay i f (calendarDay d) = Some rows"
    and "\<And>r. day_id (f r) = day_id r"
  shows "schema_ok (d\<lparr>calendarDay := rows\<rparr>)"
proof -
  have ids: "distinct (map day_id (calendarDay d))"
    and pis: "distinct (List.map_filter stripePaymentIntentId (calendarDay d))"
    using assms(1) by (simp_all add: schema_ok_def)
  from assms(2) obtain r0 where r0: "find (\<lambda>r. day_id r = i) (calendarDay d) = Some r0"
    and ok: "stripePaymentIntentId (f r0) = stripePaymentIntentId r0
             \<or> \<not> pi_taken (calendarDay d) i (stripePaymentIntentId (f r0))"
    by (auto simp: update_calendarDay_def split: option.splits if_splits)
  have r0_mem: "r0 \<in> set (calendarDay d)" and r0_id: "day_id r0 = i"
    using find_Some_mem[OF r0] by auto
  have rows: "rows = update_rows i f (calendarDay d)"
    using assms(2) by (rule update_calendarDay_SomeD)
  have "distinct (List.map_filter stripePaymentIntentId (update_rows i f (calendarDay d)))"
  proof (rule distinct_pi_update[OF pis _ ids])
    fix r assume r: "r \<in> set (calendarDay d)" "day_id r = i"
    then have same: "r = r0" using same_id_same_row[OF ids r(1) r0_mem] r0_id by simp
    show "stripePaymentIntentId (f r) = stripePaymentIntentId r \<or> stripePaymentIntentId (f r) = None \<or>
           (\<forall>x \<in> set (calendarDay d). stripePaymentIntentId x = stripePaymentIntentId (f r) \<longrightarrow> x = r)"
    proof (cases "stripePaymentIntentId (f r0) = stripePaymentIntentId r0 \<or> stripePaymentIntentId (f r0) = None")
      case True
      then show ?thesis using same by auto
    next
      case False
      then have free: "\<not> pi_taken (calendarDay d) i (stripePaymentIntentId (f r0))" using ok by simp
      have "x = r0" if "x \<in> set (calendarDay d)" "stripePaymentIntentId x = stripePaymentIntentId (f r0)" for x
      proof -
        have "day_id x = i" using free False that by (auto simp: pi_taken_def list_ex_iff)
        then show ?thesis using same_id_same_row[OF ids that(1) r0_mem] r0_id by simp
      qed
      then show ?thesis using same by simp
    qed
  qed
  then show ?thesis
    using ids update_rows_ids[of f i "calendarDay d"] assms(3) by (simp add: schema_ok_def rows)
qed

lemma schema_ok_audit [simp]: "schema_ok (create_auditLog e d) = schema_ok d"
  by (simp add: schema_ok_def create_auditLog_def)

lemma schema_ok_step:
  assumes "schema_ok d" and "update_calendarDay i f (calendarDay d) = Some rows"
    and "\<And>r. day_id (f r) = day_id r"
  shows "schema_ok (create_auditLog e (d\<lparr>calendarDay := rows\<rparr>))"
  using schema_ok_update[OF assms] by simp

lemma expire_holds_tx_schema:
  assumes "schema_ok d" and "expire_holds_tx days d = Inr (u, d')"
  shows "schema_ok d'"
  using assms
proof (induction days arbitrary: d)
  case Nil
  then show ?case by simp
next
  case (Cons day rest)
  from Cons.prems(2) obtain rows where
    upd: "update_calendarDay (day_id day) expire_row (calendarDay d) = Some rows"
    and rest: "expire_holds_tx rest (create_auditLog (hold_expired_entry day) (d\<lparr>calendarDay := rows\<rparr>)) = Inr (u, d')"
    by (auto split: option.splits)
  have "schema_ok (create_auditLog (hold_expired_entry day) (d\<lparr>calendarDay := rows\<rparr>))"
    using schema_ok_step[OF Cons.prems(1) upd] by simp
  then show ?case using Cons.IH rest by blast
qed

lemma refund_tx_schema:
  assumes "schema_ok d" and "refund_tx d day newStatus refund restoreDate reason today email = Inr (u, d')"
  shows "schema_ok d'"
  using assms by (auto simp: refund_tx_def split: option.splits intro!: schema_ok_update)

lemma perform_schema_ok:
  assumes "schema_ok d"
  shows "schema_ok (perform vd sn d op)"
proof (cases op)
  case (CreateHold req)
  then show ?thesis using assms
    by (auto simp: POST_hold_def create_hold_tx_def Let_def
        split: option.splits sum.splits if_splits intro!: schema_ok_update)
next
  case (ReleaseHold body)
  then show ?thesis using assms
    by (auto simp: DELETE_hold_def release_hold_tx_def Let_def
        split: option.splits sum.splits if_splits intro!: schema_ok_update)
next
  case (ReadCalendar allowed now ns)
  then show ?thesis using assms
    by (auto simp: GET_calendar_def Let_def split: sum.splits if_splits dest: expire_holds_tx_schema)
next
  case (CreatePaymentIntent req)
  then show ?thesis using assms
    by (auto simp: POST_create_payment_intent_def Let_def
        split: option.splits sum.splits if_splits prod.splits intro!: schema_ok_update)
next
  case (CreateAdminHold session body)
  then show ?thesis using assms
    by (auto simp: POST_admin_holds_def admin_hold_tx_def Let_def
        split: option.splits sum.splits if_splits intro!: schema_ok_update)
next
  case (ReleaseAdminHold session body)
  then show ?thesis using assms
    by (auto simp: DELETE_admin_holds_def admin_release_tx_def Let_def
        split: option.splits sum.splits if_splits intro!: schema_ok_update)
next
  case (GatewayEvent req now)
  have "schema_ok (snd (dispatch_event d ev now acc))" for ev acc
    using assms
    by (cases ev)
       (auto simp: dispatch_event_def handlePaymentSucceeded_def handlePaymentFailed_def
          handleChargeRefunded_def createAuditLog_def payment_succeeded_tx_def payment_failed_tx_def Let_def
          split: option.splits sum.splits if_splits intro!: schema_ok_update)
  then have "schema_ok d'" if "dispatch_event d ev now acc = (res, d')" for ev acc res d'
    using that by (metis snd_conv)
  then show ?thesis using GatewayEvent assms
    by (auto simp: POST_webhook_def split: sum.splits prod.splits outcome.splits)
next
  case (AdminRefund req)
  then show ?thesis using assms
    by (auto simp: POST_admin_refund_def Let_def split: option.splits sum.splits if_splits
        dest: refund_tx_schema)
next
  case (EditDedicationText req)
  then show ?thesis using assms
    by (auto simp: PATCH_admin_days_def createAuditLog_def Let_def
        split: option.splits if_splits intro!: schema_ok_update)
qed

lemma run_schema_ok: "schema_ok d \<Longrightarrow> schema_ok (run vd sn d ops)"
  unfolding run_def by (induction ops arbitrary: d) (simp_all add: perform_schema_ok)

section \<open>The webhook: events without metadata, refunded charges\<close>

text \<open>
  C10.  A payment-succeeded event whose metadata lacks \<open>calendarDayId\<close> or
  \<open>date\<close> (missing or empty) changes nothing: the handler returns with the ledger
  and the audit table as they were, and the route, for a request whose signature
  verifies, still answers \<open>{ received: true }\<close> with status 200, the answer after
  which the gateway does not deliver the event again.
\<close>

theorem webhook_missing_metadata_acknowledged:
  assumes "truthy (sig req)" and "truthy (webhookSecret req)"
    and "constructEvent req = Inr (PaymentIntentSucceeded pi)"
    and "\<not> truthy (map_of (metadata pi) ''calendarDayId'') \<or> \<not> truthy (map_of (metadata pi) ''date'')"
  shows "handlePaymentSucceeded d pi now = (Returned, d) \<and>
         POST_webhook d req now = (Json True, d) \<and>
         http_status (fst (POST_webhook d req now)) = 200"
  using assms by (auto simp: POST_webhook_def dispatch_event_def handlePaymentSucceeded_def)

theorem webhook_missing_metadata_acknowledged_witness:
  "POST_webhook seed_db (ex_signed (PaymentIntentSucceeded (ex_orphan_pi ''pi_9''))) 5000
     = (Json True, seed_db)"
  using webhook_missing_metadata_acknowledged
          [of "ex_signed (PaymentIntentSucceeded (ex_orphan_pi ''pi_9''))" "ex_orphan_pi ''pi_9''"
              seed_db 5000]
  by (simp add: ex_signed_def ex_orphan_pi_def truthy_def)

text \<open>
  C7.  A charge-refunded event leaves every row of the ledger and the settings as they
  were, whatever the database replies to the insert.  When the charge names a payment
  intent and a row carries it, the audit table grows by exactly one entry, the
  \<open>REFUND_ISSUED\<close> note for that row, and the handler returns; in every other case
  the ledger and the audit table are unchanged, also when the database refuses the
  insert, which is the one case where the handler throws.
\<close>

theorem charge_refunded_frame:
  "calendarDay (snd (handleChargeRefunded d charge accepted)) = calendarDay d \<and>
   adminSettings (snd (handleChargeRefunded d charge accepted)) = adminSettings d \<and>
   (accepted \<longrightarrow> fst (handleChargeRefunded d charge accepted) = Returned) \<and>
   (case charge_piId charge of
      None \<Rightarrow> handleChargeRefunded d charge accepted = (Returned, d)
    | Some p \<Rightarrow>
        if p \<noteq> [] \<and> has_payment_ref d p
        then (if accepted
              then (\<exists>day \<in> set (calendarDay d). stripePaymentIntentId day = Some p \<and>
                      auditLog (snd (handleChargeRefunded d charge accepted)) =
                        auditLog d @ [charge_refunded_entry day p charge])
              else snd (handleChargeRefunded d charge accepted) = d \<and>
                   fst (handleChargeRefunded d charge accepted) \<noteq> Returned)
        else handleChargeRefunded d charge accepted = (Returned, d))"
  by (auto simp: handleChargeRefunded_def createAuditLog_def create_auditLog_def has_payment_ref_def
      findUnique_pi_def find_None_iff_ex find_Some_iff list_ex_iff split: option.splits)

theorem charge_refunded_frame_witness:
  "calendarDay (snd (handleChargeRefunded (run accept_text keep_text seed_db first_sale) (ex_charge ''pi_1'') True))
     = calendarDay (run accept_text keep_text seed_db first_sale) \<and>
   length (auditLog (snd (handleChargeRefunded (run accept_text keep_text seed_db first_sale) (ex_charge ''pi_1'') True)))
     = length (auditLog (run accept_text keep_text seed_db first_sale)) + 1 \<and>
   fst (handleChargeRefunded (run accept_text keep_text seed_db first_sale) (ex_charge ''pi_1'') True) = Returned \<and>
   snd (handleChargeRefunded (run accept_text keep_text seed_db first_sale) (ex_charge ''pi_1'') False)
     = run accept_text keep_text seed_db first_sale \<and>
   handleChargeRefunded (run accept_text keep_text seed_db first_sale) (ex_charge ''pi_7'') True
     = (Returned, run accept_text keep_text seed_db first_sale)"
proof -
  have a: "charge_piId (ex_charge ''pi_1'') = Some ''pi_1''"
    and b: "charge_piId (ex_charge ''pi_7'') = Some ''pi_7''"
    by (simp_all add: charge_piId_def ex_charge_def)
  have c: "has_payment_ref (run accept_text keep_text seed_db first_sale) ''pi_1''"
    and e: "\<not> has_payment_ref (run accept_text keep_text seed_db first_sale) ''pi_7''"
    by code_simp+
  show ?thesis
    using charge_refunded_frame[of "run accept_text keep_text seed_db first_sale" "ex_charge ''pi_1''" True]
          charge_refunded_frame[of "run accept_text keep_text seed_db first_sale" "ex_charge ''pi_1''" False]
          charge_refunded_frame[of "run accept_text keep_text seed_db first_sale" "ex_charge ''pi_7''" True]
    by (auto simp: a b c e)
qed

section \<open>Holds taken one after the other\<close>

lemma find_date_update_rows:
  assumes "find (\<lambda>r. date r = k) rows = Some day" and "\<And>r. date (f r) = date r"
  shows "find (\<lambda>r. date r = k) (update_rows (day_id day) f rows) = Some (f day)"
  using assms by (induction rows) (auto simp: update_rows_def split: if_splits)

text \<open>
  Once a request has taken the hold on a date, a later request for the same date that
  arrives before the hold expires, while sales are open, is answered 409 and changes
  nothing.
\<close>

lemma later_hold_conflicts:
  assumes first: "POST_hold d req = (Json res, d')"
    and allowed: "hr_allowed req'" and same: "hr_body req' = hr_body req"
    and early: "hr_now req' < hr_date_now req + HOLD_DURATION_MS"
    and "open": "sales_window_error (adminSettings d) (hr_now req') = None"
  shows "POST_hold d' req' = (Error 409 ''This date is no longer available'', d')"
proof -
  let ?f = "\<lambda>r. r\<lparr>status := CHECKOUT_HOLD, holdToken := Some (hr_token req),
                   holdExpiresAt := Some (hr_date_now req + HOLD_DURATION_MS)\<rparr>"
  from first obtain body day rows where
    body: "hr_body req = Some body" "truthy (hb_date body)"
      "validateCalendarDate (or_default (hb_date body) [])"
    and day: "findUnique_date d (or_default (hb_date body) []) = Some day"
    and upd: "update_calendarDay (day_id day) ?f (calendarDay d) = Some rows"
    and d': "d' = create_auditLog (hold_created_entry day (hr_ip req) (hr_date_now req + HOLD_DURATION_MS))
                    (d\<lparr>calendarDay := rows\<rparr>)"
    by (auto simp: POST_hold_def create_hold_tx_def Let_def
        split: option.splits sum.splits if_splits)
  have rows: "rows = update_rows (day_id day) ?f (calendarDay d)"
    using upd by (rule update_calendarDay_SomeD)
  have found: "findUnique_date d' (or_default (hb_date body) []) = Some (?f day)"
    using find_date_update_rows[of "or_default (hb_date body) []" "calendarDay d" day ?f] day
    by (simp add: findUnique_date_def d' rows create_auditLog_def)
  have "\<not> canHold (?f day) (hr_now req')"
    using early by (simp add: canHold_def)
  then have "create_hold_tx d' (or_default (hb_date body) []) (hr_ip req') (hr_now req') (hr_token req')
               (hr_date_now req' + HOLD_DURATION_MS) = Inl (''DATE_UNAVAILABLE:'' @ status_name CHECKOUT_HOLD)"
    by (simp add: create_hold_tx_def found)
  moreover have "adminSettings d' = adminSettings d"
    by (simp add: d' create_auditLog_def)
  ultimately show ?thesis
    using allowed same body "open" by (simp add: POST_hold_def Let_def)
qed

section \<open>The invariant of the ledger\<close>

text \<open>Each route preserves \<open>ledger_invariant\<close>, and so does every history.\<close>

lemma create_hold_tx_inv:
  assumes "ledger_invariant d" and "create_hold_tx d k ip now token expires = Inr (u, d')"
  shows "ledger_invariant d'"
  using assms
  by (auto simp: create_hold_tx_def hold_fields_ok_def sale_fields_set_def
      split: option.splits if_splits
      dest!: update_calendarDay_SomeD findUnique_date_mem intro!: ledger_invariant_update)

lemma POST_hold_inv: "ledger_invariant d \<Longrightarrow> ledger_invariant (snd (POST_hold d req))"
  by (auto simp: POST_hold_def Let_def split: option.splits sum.splits if_splits
      dest: create_hold_tx_inv)

lemma release_hold_tx_inv:
  assumes "ledger_invariant d" and "release_hold_tx d k token = Inr (u, d')"
  shows "ledger_invariant d'"
  using assms
  by (auto simp: release_hold_tx_def hold_fields_ok_def sale_fields_set_def
      split: option.splits if_splits
      dest!: update_calendarDay_SomeD findUnique_date_mem intro!: ledger_invariant_update)

lemma DELETE_hold_inv: "ledger_invariant d \<Longrightarrow> ledger_invariant (snd (DELETE_hold d body))"
  by (auto simp: DELETE_hold_def Let_def split: option.splits sum.splits if_splits
      dest: release_hold_tx_inv)

lemma expire_holds_tx_inv:
  assumes "ledger_invariant d" and "expire_holds_tx days d = Inr (u, d')"
  shows "ledger_invariant d'"
  using assms
proof (induction days arbitrary: d)
  case Nil
  then show ?case by simp
next
  case (Cons day rest)
  from Cons.prems(2) obtain rows where
    upd: "update_calendarDay (day_id day) expire_row (calendarDay d) = Some rows"
    and rest: "expire_holds_tx rest (create_auditLog (hold_expired_entry day) (d\<lparr>calendarDay := rows\<rparr>)) = Inr (u, d')"
    by (auto split: option.splits)
  from upd obtain r where r: "r \<in> set (calendarDay d)" "day_id r = day_id day"
    by (auto simp: update_calendarDay_def split: option.splits dest: find_Some_mem)
  have "ledger_invariant (d\<lparr>calendarDay := update_rows (day_id r) expire_row (calendarDay d)\<rparr>)"
    using Cons.prems(1) r(1)
    by (intro ledger_invariant_update) (auto simp: expire_row_def hold_fields_ok_def sale_fields_set_def)
  then have "ledger_invariant (create_auditLog (hold_expired_entry day) (d\<lparr>calendarDay := rows\<rparr>))"
    using update_calendarDay_SomeD[OF upd] r(2) by simp
  then show ?case using Cons.IH rest by blast
qed

lemma GET_calendar_inv:
  "ledger_invariant d \<Longrightarrow> ledger_invariant (snd (GET_calendar d allowed now now_status))"
  by (auto simp: GET_calendar_def Let_def split: sum.splits if_splits dest: expire_holds_tx_inv)

lemma POST_create_payment_intent_inv:
  assumes "ledger_invariant d"
  shows "ledger_invariant (snd (POST_create_payment_intent vd sn d req))"
proof -
  have step: "ledger_invariant (d\<lparr>calendarDay := rows\<rparr>)"
    if "verify_hold_tx d k token now = Inr (day, d0)"
      and "update_calendarDay (day_id day) f (calendarDay d) = Some rows"
      and "\<And>r. day_id (f r) = day_id r" "\<And>r. status (f r) = status r"
      and "\<And>r. holdToken (f r) = holdToken r" "\<And>r. holdExpiresAt (f r) = holdExpiresAt r"
      and "\<And>r. orderId (f r) = orderId r" "\<And>r. paidAt (f r) = paidAt r"
    for k token now day d0 f rows
  proof -
    have mem: "day \<in> set (calendarDay d)"
      using that(1) by (auto simp: verify_hold_tx_def split: option.splits if_splits dest: findUnique_date_mem)
    have "hold_fields_ok (f day) \<and> sale_fields_set (f day)"
      using ledger_invariant_row[OF assms mem] that(4-8)
      by (simp add: hold_fields_ok_def sale_fields_set_def)
    then show ?thesis
      using ledger_invariant_update[OF assms mem that(3)] update_calendarDay_SomeD[OF that(2)] by simp
  qed
  show ?thesis
    by (auto simp: POST_create_payment_intent_def Let_def assms
        split: option.splits sum.splits if_splits prod.splits intro!: step)
qed

lemma admin_hold_tx_inv:
  assumes "ledger_invariant d" and "admin_hold_tx d k note email = Inr (u, d')"
  shows "ledger_invariant d'"
  using assms
  by (auto simp: admin_hold_tx_def Let_def hold_fields_ok_def sale_fields_set_def
      split: option.splits if_splits
      dest!: update_calendarDay_SomeD findUnique_date_mem intro!: ledger_invariant_update)

lemma POST_admin_holds_inv:
  "ledger_invariant d \<Longrightarrow> ledger_invariant (snd (POST_admin_holds d session body))"
  by (auto simp: POST_admin_holds_def Let_def split: option.splits sum.splits if_splits
      dest: admin_hold_tx_inv)

lemma admin_release_tx_inv:
  assumes "ledger_invariant d" and "admin_release_tx d k email = Inr (u, d')"
  shows "ledger_invariant d'"
proof -
  from assms(2) obtain day rows where
    day: "findUnique_date d k = Some day" "status day = ADMIN_HOLD"
    and upd: "update_calendarDay (day_id day) (\<lambda>r. r\<lparr>status := AVAILABLE, adminNote := None\<rparr>) (calendarDay d) = Some rows"
    and d': "d' = create_auditLog (admin_release_entry day email) (d\<lparr>calendarDay := rows\<rparr>)"
    by (auto simp: admin_release_tx_def split: option.splits if_splits)
  have mem: "day \<in> set (calendarDay d)" using day(1) by (rule findUnique_date_mem)
  have "hold_fields_ok day" using ledger_invariant_row[OF assms(1) mem] by simp
  then have "ledger_invariant (d\<lparr>calendarDay := update_rows (day_id day) (\<lambda>r. r\<lparr>status := AVAILABLE, adminNote := None\<rparr>) (calendarDay d)\<rparr>)"
    using day(2) by (intro ledger_invariant_update[OF assms(1) mem])
      (auto simp: hold_fields_ok_def sale_fields_set_def)
  then show ?thesis using d' update_calendarDay_SomeD[OF upd] by simp
qed

lemma DELETE_admin_holds_inv:
  "ledger_invariant d \<Longrightarrow> ledger_invariant (snd (DELETE_admin_holds d session body))"
  by (auto simp: DELETE_admin_holds_def Let_def split: option.splits sum.splits if_splits
      dest: admin_release_tx_inv)

lemma payment_succeeded_tx_inv:
  assumes "ledger_invariant d" and "payment_succeeded_tx d pi cid oid paid = Inr (u, d')"
  shows "ledger_invariant d'"
  using assms
  by (auto simp: payment_succeeded_tx_def sold_update_def Let_def hold_fields_ok_def sale_fields_set_def
      split: option.splits if_splits
      dest!: update_calendarDay_SomeD findUnique_id_mem intro!: ledger_invariant_update)

lemma payment_failed_tx_inv:
  assumes "ledger_invariant d" and "payment_failed_tx d pi cid = Inr (u, d')"
  shows "ledger_invariant d'"
  using assms
  by (auto simp: payment_failed_tx_def hold_fields_ok_def sale_fields_set_def
      split: option.splits if_splits
      dest!: update_calendarDay_SomeD findUnique_id_mem intro!: ledger_invariant_update)

lemma dispatch_event_inv:
  "ledger_invariant d \<Longrightarrow> ledger_invariant (snd (dispatch_event d ev now acc))"
  by (auto simp: dispatch_event_def handlePaymentSucceeded_def handlePaymentFailed_def
      handleChargeRefunded_def createAuditLog_def Let_def
      split: event.splits option.splits sum.splits if_splits
      dest: payment_succeeded_tx_inv payment_failed_tx_inv)

lemma POST_webhook_inv:
  assumes "ledger_invariant d"
  shows "ledger_invariant (snd (POST_webhook d req now))"
proof -
  have "ledger_invariant d'" if "dispatch_event d ev now acc = (res, d')" for ev acc res d'
    using dispatch_event_inv[OF assms, of ev now acc] that by simp
  then show ?thesis
    using assms by (auto simp: POST_webhook_def split: sum.splits prod.splits outcome.splits)
qed

lemma refund_tx_inv:
  assumes "ledger_invariant d" and "day \<in> set (calendarDay d)" and "status day = SOLD"
    and "newStatus = AVAILABLE \<or> newStatus = ADMIN_HOLD"
    and "refund_tx d day newStatus refund restoreDate reason today email = Inr (u, d')"
  shows "ledger_invariant d'"
proof -
  let ?f = "\<lambda>r. r\<lparr>status := newStatus,
                   adminNote := (if restoreDate then None
                                 else Some (''Refunded on '' @ today @ '' -- '' @ reason))\<rparr>"
  from assms(5) obtain rows where
    upd: "update_calendarDay (day_id day) ?f (calendarDay d) = Some rows"
    and d': "d' = create_auditLog (refund_entry day newStatus refund restoreDate reason email) (d\<lparr>calendarDay := rows\<rparr>)"
    by (auto simp: refund_tx_def split: option.splits)
  have "hold_fields_ok day" using ledger_invariant_row[OF assms(1,2)] by simp
  then have "ledger_invariant (d\<lparr>calendarDay := update_rows (day_id day) ?f (calendarDay d)\<rparr>)"
    using assms(3,4) by (intro ledger_invariant_update[OF assms(1,2)])
      (auto simp: hold_fields_ok_def sale_fields_set_def)
  then show ?thesis using d' update_calendarDay_SomeD[OF upd] by simp
qed

lemma POST_admin_refund_inv:
  "ledger_invariant d \<Longrightarrow> ledger_invariant (fst (snd (POST_admin_refund d req)))"
  by (auto simp: POST_admin_refund_def Let_def split: option.splits sum.splits if_splits
      dest!: findUnique_date_mem dest: refund_tx_inv)

lemma PATCH_admin_days_inv:
  assumes "ledger_invariant d"
  shows "ledger_invariant (snd (PATCH_admin_days vd sn d req))"
proof -
  have step: "ledger_invariant (d\<lparr>calendarDay := rows\<rparr>)"
    if "findUnique_date d k = Some day"
      and "update_calendarDay (day_id day) (\<lambda>r. r\<lparr>dedicationText := t\<rparr>) (calendarDay d) = Some rows"
    for k day t rows
  proof -
    have mem: "day \<in> set (calendarDay d)" using that(1) by (rule findUnique_date_mem)
    have "ledger_invariant (d\<lparr>calendarDay := update_rows (day_id day) (\<lambda>r. r\<lparr>dedicationText := t\<rparr>) (calendarDay d)\<rparr>)"
      using ledger_invariant_row[OF assms mem]
      by (intro ledger_invariant_update[OF assms mem]) (auto simp: hold_fields_ok_def sale_fields_set_def)
    then show ?thesis using update_calendarDay_SomeD[OF that(2)] by simp
  qed
  show ?thesis
    using step
    by (auto simp: PATCH_admin_days_def createAuditLog_def Let_def assms split: option.splits if_splits)
qed

lemma perform_inv: "ledger_invariant d \<Longrightarrow> ledger_invariant (perform vd sn d op)"
  by (cases op)
    (simp_all add: POST_hold_inv DELETE_hold_inv GET_calendar_inv POST_create_payment_intent_inv
      POST_admin_holds_inv DELETE_admin_holds_inv POST_webhook_inv POST_admin_refund_inv
      PATCH_admin_days_inv)

lemma run_inv: "ledger_invariant d \<Longrightarrow> ledger_invariant (run vd sn d ops)"
  unfolding run_def by (induction ops arbitrary: d) (simp_all add: perform_inv)

text \<open>
  C2.  Order numbers are meant to be unique (\<open>generateOrderId\<close>: "Generate a unique,
  human-readable order number"), but the number is one more than the count of rows that
  are \<open>SOLD\<close> now.  In the history below the first day is sold and gets
  \<open>ACF-2027-00001\<close>, an administrator refunds it and restores the date, and the
  second day is sold: no row is \<open>SOLD\<close> at that moment, so the second sale gets
  \<open>ACF-2027-00001\<close> again.  Both \<open>PAYMENT_RECEIVED\<close> entries and both rows carry
  the same order number.
\<close>

theorem order_reference_repeats:
  "finalized_order_refs (run accept_text keep_text seed_db refund_then_sale)
     = [Some (JStr ''ACF-2027-00001''), Some (JStr ''ACF-2027-00001'')] \<and>
   map orderId (calendarDay (run accept_text keep_text seed_db refund_then_sale))
     = [Some ''ACF-2027-00001'', Some ''ACF-2027-00001''] \<and>
   map status (calendarDay (run accept_text keep_text seed_db refund_then_sale)) = [AVAILABLE, SOLD]"
  by code_simp

text \<open>
  C3, as the code has it.  Starting from a ledger with unique ids in which the hold
  fields are set exactly on the rows in \<open>CHECKOUT_HOLD\<close> and every \<open>SOLD\<close> row has
  its order number and payment time, every sequence of operations ends in such a ledger:
  token and expiry are non-null if and only if the state is \<open>CHECKOUT_HOLD\<close>, and a
  row that is \<open>SOLD\<close> has a non-null order number and payment time.  Nothing is said
  about order number and payment time of a row that is not \<open>SOLD\<close>: a refund keeps
  them on the row.
\<close>

theorem ledger_invariant_preserved:
  assumes "ledger_invariant d"
  shows "ledger_invariant (run vd sn d ops) \<and>
         list_all (\<lambda>r. hold_fields_iff r \<and> sale_fields_set r) (calendarDay (run vd sn d ops))"
proof -
  have inv: "ledger_invariant (run vd sn d ops)" using assms by (rule run_inv)
  moreover have "hold_fields_ok r \<Longrightarrow> hold_fields_iff r" for r
    by (auto simp: hold_fields_ok_def hold_fields_iff_def split: if_splits)
  ultimately show ?thesis by (auto simp: ledger_invariant_def list_all_iff)
qed

theorem ledger_invariant_preserved_witness:
  "ledger_invariant seed_db \<and> ledger_invariant (run accept_text keep_text seed_db refund_then_sale)"
proof -
  have "ledger_invariant seed_db" by code_simp
  then show ?thesis
    using ledger_invariant_preserved[of seed_db accept_text keep_text refund_then_sale] by simp
qed

text \<open>
  The other half of the second equivalence fails.  The seeded ledger satisfies both
  equivalences; after a sale and its refund with the date restored, the first day is
  \<open>AVAILABLE\<close> and still carries the order number and the payment time of the sale.
\<close>

theorem refund_keeps_order_reference_counterexample:
  "list_all hold_fields_iff (calendarDay seed_db) \<and>
   list_all sale_fields_iff (calendarDay seed_db) \<and>
   map status (calendarDay (run accept_text keep_text seed_db sale_then_refund)) = [AVAILABLE, AVAILABLE] \<and>
   map orderId (calendarDay (run accept_text keep_text seed_db sale_then_refund))
     = [Some ''ACF-2027-00001'', None] \<and>
   map paidAt (calendarDay (run accept_text keep_text seed_db sale_then_refund)) = [Some 3000, None] \<and>
   \<not> list_all sale_fields_iff (calendarDay (run accept_text keep_text seed_db sale_then_refund))"
  by code_simp

section \<open>Replayed payment events\<close>

lemma update_calendarDay_sold_None:
  "update_calendarDay i (sold_update day pi oid paid) rows = None \<longleftrightarrow>
     (case find (\<lambda>r. day_id r = i) rows of
        None \<Rightarrow> True
      | Some r \<Rightarrow> Some (pi_id pi) \<noteq> stripePaymentIntentId r \<and> pi_taken rows i (Some (pi_id pi)))"
  by (auto simp: update_calendarDay_def sold_update_def Let_def split: option.splits)

lemma payment_succeeded_tx_Inl:
  assumes "payment_succeeded_tx d pi cid oid paid = Inl m"
  shows "payment_succeeded_tx d pi cid oid' paid' = Inl m"
proof (cases "findUnique_id d cid")
  case None
  then show ?thesis using assms by (simp add: payment_succeeded_tx_def)
next
  case (Some day)
  have "update_calendarDay (day_id day) (sold_update day pi oid paid) (calendarDay d) = None
        \<Longrightarrow> update_calendarDay (day_id day) (sold_update day pi oid' paid') (calendarDay d) = None"
    by (simp add: update_calendarDay_sold_None)
  then show ?thesis
    using assms Some by (auto simp: payment_succeeded_tx_def split: if_splits option.splits)
qed

lemma payment_succeeded_tx_same:
  assumes "payment_succeeded_tx d pi cid oid paid = Inr (u, d)"
  shows "payment_succeeded_tx d pi cid oid' paid' = Inr (u, d)"
proof -
  have neq: "create_auditLog e (d\<lparr>calendarDay := rows\<rparr>) \<noteq> d" for e rows
    by (rule create_auditLog_neq) simp
  show ?thesis
    using assms neq by (auto simp: payment_succeeded_tx_def split: if_splits option.splits)
qed

text \<open>The handler either leaves the ledger as it is, whatever the clock, or marks one day sold.\<close>

lemma handlePaymentSucceeded_noop:
  assumes "snd (handlePaymentSucceeded d pi now) = d"
  shows "handlePaymentSucceeded d pi now' = handlePaymentSucceeded d pi now"
proof -
  let ?cid = "or_default (map_of (metadata pi) ''calendarDayId'') []"
  let ?oid = "generateOrderId d 2027"
  have tx: "payment_succeeded_tx d pi ?cid ?oid now' = payment_succeeded_tx d pi ?cid ?oid now"
    if "truthy (map_of (metadata pi) ''calendarDayId'')" "truthy (map_of (metadata pi) ''date'')"
       "\<not> (case findUnique_pi d (pi_id pi) of None \<Rightarrow> False | Some r \<Rightarrow> status r = SOLD)"
  proof (cases "payment_succeeded_tx d pi ?cid ?oid now")
    case (Inl m)
    then show ?thesis using payment_succeeded_tx_Inl[OF Inl, of ?oid now'] by simp
  next
    case (Inr res)
    then have "snd res = d" using assms that by (simp add: handlePaymentSucceeded_def Let_def split: prod.splits)
    then have "payment_succeeded_tx d pi ?cid ?oid now = Inr (fst res, d)" using Inr by (cases res) simp
    then show ?thesis using payment_succeeded_tx_same[of d pi ?cid ?oid now "fst res" ?oid now'] by simp
  qed
  show ?thesis
    using tx by (simp add: handlePaymentSucceeded_def Let_def)
qed

lemma handlePaymentSucceeded_step:
  assumes "snd (handlePaymentSucceeded d pi now) \<noteq> d"
  shows "\<exists>day rows. findUnique_id d (or_default (map_of (metadata pi) ''calendarDayId'') []) = Some day
           \<and> update_calendarDay (day_id day) (sold_update day pi (generateOrderId d 2027) now) (calendarDay d) = Some rows
           \<and> handlePaymentSucceeded d pi now =
               (Returned, create_auditLog (payment_received_entry day pi (generateOrderId d 2027)) (d\<lparr>calendarDay := rows\<rparr>))
           \<and> truthy (map_of (metadata pi) ''calendarDayId'') \<and> truthy (map_of (metadata pi) ''date'')"
  using assms
  by (auto simp: handlePaymentSucceeded_def payment_succeeded_tx_def Let_def
      split: option.splits if_splits sum.splits)

lemma handlePaymentSucceeded_second:
  assumes "schema_ok d"
  shows "handlePaymentSucceeded (snd (handlePaymentSucceeded d pi now)) pi now'
         = (fst (handlePaymentSucceeded d pi now), snd (handlePaymentSucceeded d pi now))"
proof (cases "snd (handlePaymentSucceeded d pi now) = d")
  case True
  then show ?thesis using handlePaymentSucceeded_noop[OF True, of now'] by (simp add: prod_eq_iff)
next
  case False
  let ?cid = "or_default (map_of (metadata pi) ''calendarDayId'') []"
  let ?oid = "generateOrderId d 2027"
  from handlePaymentSucceeded_step[OF False] obtain day rows where
    day: "findUnique_id d ?cid = Some day"
    and upd: "update_calendarDay (day_id day) (sold_update day pi ?oid now) (calendarDay d) = Some rows"
    and res: "handlePaymentSucceeded d pi now =
               (Returned, create_auditLog (payment_received_entry day pi ?oid) (d\<lparr>calendarDay := rows\<rparr>))"
    and md: "truthy (map_of (metadata pi) ''calendarDayId'')" "truthy (map_of (metadata pi) ''date'')"
    by blast
  let ?f = "sold_update day pi ?oid now"
  have rows: "rows = update_rows (day_id day) ?f (calendarDay d)"
    using update_calendarDay_SomeD[OF upd] .
  have mem: "day \<in> set (calendarDay d)" using day by (rule findUnique_id_mem)
  have f_pi: "stripePaymentIntentId (?f r) = Some (pi_id pi)" and f_st: "status (?f r) = SOLD" for r
    by (simp_all add: sold_update_def Let_def)
  have others: "day_id r = day_id day"
    if "r \<in> set (calendarDay d)" "stripePaymentIntentId r = Some (pi_id pi)" for r
  proof (cases "stripePaymentIntentId day = Some (pi_id pi)")
    case True
    then show ?thesis
      using pi_distinct_same_row[OF _ that(1) mem that(2) True] assms by (simp add: schema_ok_def)
  next
    case False
    have "find (\<lambda>r. day_id r = day_id day) (calendarDay d) = Some day"
      using day find_Some_mem[of "\<lambda>r. day_id r = ?cid" "calendarDay d" day]
      by (simp add: findUnique_id_def)
    then have "\<not> pi_taken (calendarDay d) (day_id day) (Some (pi_id pi))"
      using upd f_pi False by (auto simp: update_calendarDay_def split: if_splits)
    then show ?thesis using that by (auto simp: pi_taken_def list_ex_iff)
  qed
  have all_sold: "status r = SOLD" if "r \<in> set rows" "stripePaymentIntentId r = Some (pi_id pi)" for r
    using that others f_st unfolding rows update_rows_def by (auto split: if_splits)
  have "?f day \<in> set rows" using mem unfolding rows update_rows_def by force
  then obtain r where "find (\<lambda>r. stripePaymentIntentId r = Some (pi_id pi)) rows = Some r" "status r = SOLD"
    using find_all_sold[of rows "\<lambda>r. stripePaymentIntentId r = Some (pi_id pi)" "\<lambda>r. status r = SOLD" "?f day"]
      all_sold f_pi by blast
  then have "handlePaymentSucceeded (create_auditLog (payment_received_entry day pi ?oid) (d\<lparr>calendarDay := rows\<rparr>)) pi now'
        = (Returned, create_auditLog (payment_received_entry day pi ?oid) (d\<lparr>calendarDay := rows\<rparr>))"
    using md by (simp add: handlePaymentSucceeded_def findUnique_pi_def create_auditLog_def Let_def)
  then show ?thesis by (simp add: res)
qed

lemma POST_webhook_succeeded:
  assumes "constructEvent req = Inr (PaymentIntentSucceeded pi)"
  shows "POST_webhook d req now =
           (if \<not> truthy (sig req) \<or> \<not> truthy (webhookSecret req) then (Error 400 ''Missing signature'', d)
            else (case fst (handlePaymentSucceeded d pi now) of
                    Returned \<Rightarrow> Json True | Thrown _ \<Rightarrow> Error 500 ''Handler failed'',
                  snd (handlePaymentSucceeded d pi now)))"
  using assms
  by (auto simp: POST_webhook_def dispatch_event_def split: prod.splits outcome.splits)

text \<open>
  C4.  On a ledger whose unique columns are unique, a payment-succeeded event delivered a
  second time gets the answer of the first delivery and leaves the ledger and the audit
  table exactly as the first delivery left them; the two deliveries together add at most
  one \<open>PAYMENT_RECEIVED\<close> entry.  (The unique columns are unique in every ledger
  the operations produce from one where they are: \<open>run_schema_ok\<close>.)  When the
  request verifies, the metadata names a day that is in \<open>CHECKOUT_HOLD\<close>, or that
  carries this payment intent and is not yet \<open>SOLD\<close>, and no other row carries the
  payment intent, the first delivery answers 200, the day is \<open>SOLD\<close> after it, the audit table has grown by the
  one \<open>PAYMENT_RECEIVED\<close> entry, and after the second delivery, which also answers 200,
  there is still exactly that one more.
\<close>

theorem payment_succeeded_replay:
  assumes "schema_ok d" and "constructEvent req = Inr (PaymentIntentSucceeded pi)"
  shows "POST_webhook (snd (POST_webhook d req now)) req now'
           = (fst (POST_webhook d req now), snd (POST_webhook d req now)) \<and>
         count_action PAYMENT_RECEIVED (snd (POST_webhook d req now))
           \<le> count_action PAYMENT_RECEIVED d + 1 \<and>
         (truthy (sig req) \<and> truthy (webhookSecret req) \<and>
          map_of (metadata pi) ''calendarDayId'' = Some cid \<and> cid \<noteq> [] \<and>
          truthy (map_of (metadata pi) ''date'') \<and>
          findUnique_id d cid = Some day \<and>
          (status day = CHECKOUT_HOLD \<or>
           status day \<noteq> SOLD \<and> stripePaymentIntentId day = Some (pi_id pi)) \<and>
          list_all (\<lambda>r. stripePaymentIntentId r = Some (pi_id pi) \<longrightarrow> day_id r = cid) (calendarDay d)
          \<longrightarrow>
          fst (POST_webhook d req now) = Json True \<and>
          status_of (snd (POST_webhook d req now)) cid = Some SOLD \<and>
          auditLog (snd (POST_webhook d req now))
            = auditLog d @ [payment_received_entry day pi (generateOrderId d 2027)] \<and>
          count_action PAYMENT_RECEIVED (snd (POST_webhook (snd (POST_webhook d req now)) req now'))
            = count_action PAYMENT_RECEIVED d + 1)"
proof (intro conjI impI)
  show replay: "POST_webhook (snd (POST_webhook d req now)) req now'
           = (fst (POST_webhook d req now), snd (POST_webhook d req now))"
    using handlePaymentSucceeded_second[OF assms(1), of pi now now']
    by (simp add: POST_webhook_succeeded[OF assms(2)])
  show "count_action PAYMENT_RECEIVED (snd (POST_webhook d req now)) \<le> count_action PAYMENT_RECEIVED d + 1"
  proof (cases "snd (handlePaymentSucceeded d pi now) = d")
    case True
    then show ?thesis by (simp add: POST_webhook_succeeded[OF assms(2)])
  next
    case False
    from handlePaymentSucceeded_step[OF False] obtain day' rows where
      "handlePaymentSucceeded d pi now =
         (Returned, create_auditLog (payment_received_entry day' pi (generateOrderId d 2027)) (d\<lparr>calendarDay := rows\<rparr>))"
      by blast
    then show ?thesis
      by (simp add: POST_webhook_succeeded[OF assms(2)] count_action_def create_auditLog_def)
  qed
  assume held: "truthy (sig req) \<and> truthy (webhookSecret req) \<and>
          map_of (metadata pi) ''calendarDayId'' = Some cid \<and> cid \<noteq> [] \<and>
          truthy (map_of (metadata pi) ''date'') \<and>
          findUnique_id d cid = Some day \<and>
          (status day = CHECKOUT_HOLD \<or>
           status day \<noteq> SOLD \<and> stripePaymentIntentId day = Some (pi_id pi)) \<and>
          list_all (\<lambda>r. stripePaymentIntentId r = Some (pi_id pi) \<longrightarrow> day_id r = cid) (calendarDay d)"
  let ?oid = "generateOrderId d 2027"
  let ?f = "sold_update day pi ?oid now"
  have cid: "or_default (map_of (metadata pi) ''calendarDayId'') [] = cid"
    and tcid: "truthy (map_of (metadata pi) ''calendarDayId'')"
    using held by (simp_all add: or_default_def truthy_def)
  have found: "find (\<lambda>r. day_id r = cid) (calendarDay d) = Some day"
    using held by (simp add: findUnique_id_def)
  then have mem: "day \<in> set (calendarDay d)" and id: "day_id day = cid"
    using find_Some_mem[OF found] by auto
  have others: "day_id r = cid" if "r \<in> set (calendarDay d)" "stripePaymentIntentId r = Some (pi_id pi)" for r
    using held that by (auto simp: list_all_iff)
  have not_sold: "\<not> (case findUnique_pi d (pi_id pi) of None \<Rightarrow> False | Some r \<Rightarrow> status r = SOLD)"
  proof (cases "findUnique_pi d (pi_id pi)")
    case None
    then show ?thesis by simp
  next
    case (Some r)
    then have "r \<in> set (calendarDay d)" "stripePaymentIntentId r = Some (pi_id pi)"
      using find_Some_mem[of "\<lambda>r. stripePaymentIntentId r = Some (pi_id pi)" "calendarDay d" r]
      by (auto simp: findUnique_pi_def)
    then have "r = day"
      using others same_id_same_row[OF _ _ mem] assms(1) id by (auto simp: schema_ok_def)
    then show ?thesis using Some held by auto
  qed
  have not_taken: "\<not> pi_taken (calendarDay d) cid (Some (pi_id pi))"
    using others by (auto simp: pi_taken_def list_ex_iff)
  have upd: "update_calendarDay (day_id day) ?f (calendarDay d) = Some (update_rows cid ?f (calendarDay d))"
    using found not_taken by (simp add: update_calendarDay_def id sold_update_def Let_def)
  have first: "handlePaymentSucceeded d pi now =
      (Returned, create_auditLog (payment_received_entry day pi ?oid)
                   (d\<lparr>calendarDay := update_rows cid ?f (calendarDay d)\<rparr>))"
  proof -
    have day: "findUnique_id d cid = Some day"
      and st: "(status day \<noteq> CHECKOUT_HOLD \<and> stripePaymentIntentId day \<noteq> Some (pi_id pi)) = False"
      and tdate: "truthy (map_of (metadata pi) ''date'')"
      using held by auto
    have "payment_succeeded_tx d pi cid ?oid now =
            Inr ((), create_auditLog (payment_received_entry day pi ?oid)
                       (d\<lparr>calendarDay := update_rows cid ?f (calendarDay d)\<rparr>))"
      by (simp only: payment_succeeded_tx_def day st upd option.case if_False)
    then show ?thesis
      using tcid tdate not_sold by (simp add: handlePaymentSucceeded_def Let_def cid)
  qed
  show ok: "fst (POST_webhook d req now) = Json True"
    using held by (simp add: POST_webhook_succeeded[OF assms(2)] first)
  show "status_of (snd (POST_webhook d req now)) cid = Some SOLD"
    using held find_update_rows[OF found, of ?f]
    by (simp add: POST_webhook_succeeded[OF assms(2)] first status_of_def findUnique_id_def
        create_auditLog_def sold_update_def Let_def)
  show log: "auditLog (snd (POST_webhook d req now))
            = auditLog d @ [payment_received_entry day pi ?oid]"
    using held by (simp add: POST_webhook_succeeded[OF assms(2)] first create_auditLog_def)
  show "count_action PAYMENT_RECEIVED (snd (POST_webhook (snd (POST_webhook d req now)) req now'))
            = count_action PAYMENT_RECEIVED d + 1"
    using count_action_append[OF log, of PAYMENT_RECEIVED]
    by (simp add: replay payment_received_entry_def)
qed

theorem payment_succeeded_replay_witness:
  "POST_webhook sold_ledger (ex_signed (PaymentIntentSucceeded (ex_pi ''pi_1'' ''d1'' ''2027-03-15''))) 4000
     = (Json True, sold_ledger) \<and>
   status_of sold_ledger ''d1'' = Some SOLD \<and>
   count_action PAYMENT_RECEIVED
     (snd (POST_webhook sold_ledger (ex_signed (PaymentIntentSucceeded (ex_pi ''pi_1'' ''d1'' ''2027-03-15''))) 4000))
     = 1"
proof -
  let ?pi = "ex_pi ''pi_1'' ''d1'' ''2027-03-15''"
  let ?req = "ex_signed (PaymentIntentSucceeded ?pi)"
  have a: "schema_ok held_ledger" by code_simp
  have b: "constructEvent ?req = Inr (PaymentIntentSucceeded ?pi)" by (simp add: ex_signed_def)
  have c: "truthy (sig ?req) \<and> truthy (webhookSecret ?req) \<and>
          map_of (metadata ?pi) ''calendarDayId'' = Some ''d1'' \<and> ''d1'' \<noteq> [] \<and>
          truthy (map_of (metadata ?pi) ''date'') \<and>
          findUnique_id held_ledger ''d1'' = Some (hd (calendarDay held_ledger)) \<and>
          (status (hd (calendarDay held_ledger)) = CHECKOUT_HOLD \<or>
           status (hd (calendarDay held_ledger)) \<noteq> SOLD \<and>
           stripePaymentIntentId (hd (calendarDay held_ledger)) = Some (pi_id ?pi)) \<and>
          list_all (\<lambda>r. stripePaymentIntentId r = Some (pi_id ?pi) \<longrightarrow> day_id r = ''d1'')
            (calendarDay held_ledger)"
    by code_simp
  have e: "snd (POST_webhook held_ledger ?req 3000) = sold_ledger" by code_simp
  have f: "count_action PAYMENT_RECEIVED held_ledger = 0" by code_simp
  note replay = payment_succeeded_replay[OF a b, of 3000 4000 "''d1''" "hd (calendarDay held_ledger)",
      unfolded e f]
  have again: "POST_webhook sold_ledger ?req 4000 = (fst (POST_webhook held_ledger ?req 3000), sold_ledger)"
    using replay by (rule conjunct1)
  have held: "fst (POST_webhook held_ledger ?req 3000) = Json True \<and>
        status_of sold_ledger ''d1'' = Some SOLD \<and>
        auditLog sold_ledger = auditLog held_ledger @
          [payment_received_entry (hd (calendarDay held_ledger)) ?pi (generateOrderId held_ledger 2027)] \<and>
        count_action PAYMENT_RECEIVED (snd (POST_webhook sold_ledger ?req 4000)) = 0 + 1"
    using replay c by blast
  have first: "fst (POST_webhook held_ledger ?req 3000) = Json True"
    and sold: "status_of sold_ledger ''d1'' = Some SOLD"
    and once: "count_action PAYMENT_RECEIVED (snd (POST_webhook sold_ledger ?req 4000)) = 0 + 1"
    using held by blast+
  have "POST_webhook sold_ledger ?req 4000 = (Json True, sold_ledger)"
    unfolding again first ..
  moreover have "count_action PAYMENT_RECEIVED (snd (POST_webhook sold_ledger ?req 4000)) = 1"
    unfolding once by simp
  ultimately show ?thesis using sold by blast
qed

section \<open>Refunds\<close>

lemma refund_rejected:
  assumes "rq_body req = Some body"
    and "findUnique_date d (or_default (rb_date body) []) = Some day"
    and "status day \<noteq> SOLD \<or> \<not> truthy (stripePaymentIntentId day)"
  shows "\<exists>m. POST_admin_refund d req = (Error (if rq_session req = None then 401 else 400) m, d, [])"
  using assms by (cases "rq_session req") (auto simp: POST_admin_refund_def Let_def)

lemma refund_unchanged_or_paid:
  "fst (snd (POST_admin_refund d req)) = d \<or>
   (\<exists>refund. rq_gateway req = Inr refund \<and>
       (refund_status refund = ''succeeded'' \<or> refund_status refund = ''pending''))"
proof (cases "rq_gateway req")
  case (Inl msg)
  then show ?thesis
    by (simp add: POST_admin_refund_def Let_def split: option.splits)
next
  case (Inr refund)
  then show ?thesis
    by (simp add: POST_admin_refund_def Let_def split: option.splits sum.splits)
qed

lemma refund_gateway_failure:
  assumes "case rq_gateway req of
             Inl msg \<Rightarrow> True
           | Inr refund \<Rightarrow> refund_status refund \<noteq> ''succeeded'' \<and> refund_status refund \<noteq> ''pending''"
  shows "http_status (fst (POST_admin_refund d req)) \<in> {400, 401, 404, 500} \<and>
         fst (snd (POST_admin_refund d req)) = d \<and>
         (snd (snd (POST_admin_refund d req)) \<noteq> [] \<longrightarrow>
            fst (POST_admin_refund d req) =
              Error 500 (case rq_gateway req of
                           Inl msg \<Rightarrow> msg
                         | Inr refund \<Rightarrow> ''Stripe refund failed: '' @ refund_status refund))"
proof (cases "rq_gateway req")
  case (Inl msg)
  then show ?thesis
    by (simp add: POST_admin_refund_def Let_def split: option.splits)
next
  case (Inr refund)
  then show ?thesis
    using assms by (simp add: POST_admin_refund_def Let_def split: option.splits)
qed

text \<open>
  C6.  A refund request for a day that is not \<open>SOLD\<close>, or that has no payment intent
  stored, is answered with status 400 (401 without a session), the ledger and the audit
  table unchanged and no call made to the gateway.  When the gateway call throws or the
  refund it returns is neither \<open>succeeded\<close> nor \<open>pending\<close>, the ledger and the audit
  table are unchanged and the request fails; if the gateway was reached, the answer is
  status 500 with the gateway's message or refund status.
\<close>

theorem refund_preconditions:
  "(rq_body req = Some body \<and> findUnique_date d (or_default (rb_date body) []) = Some day \<and>
    (status day \<noteq> SOLD \<or> \<not> truthy (stripePaymentIntentId day))
    \<longrightarrow> http_status (fst (POST_admin_refund d req)) = (if rq_session req = None then 401 else 400) \<and>
        fst (snd (POST_admin_refund d req)) = d \<and>
        snd (snd (POST_admin_refund d req)) = []) \<and>
   ((case rq_gateway req of
       Inl msg \<Rightarrow> True
     | Inr refund \<Rightarrow> refund_status refund \<noteq> ''succeeded'' \<and> refund_status refund \<noteq> ''pending'')
    \<longrightarrow> http_status (fst (POST_admin_refund d req)) \<in> {400, 401, 404, 500} \<and>
        fst (snd (POST_admin_refund d req)) = d \<and>
        (snd (snd (POST_admin_refund d req)) \<noteq> [] \<longrightarrow>
           fst (POST_admin_refund d req) =
             Error 500 (case rq_gateway req of
                          Inl msg \<Rightarrow> msg
                        | Inr refund \<Rightarrow> ''Stripe refund failed: '' @ refund_status refund)))"
proof (rule conjI; rule impI)
  assume "rq_body req = Some body \<and> findUnique_date d (or_default (rb_date body) []) = Some day \<and>
    (status day \<noteq> SOLD \<or> \<not> truthy (stripePaymentIntentId day))"
  then obtain m where
    "POST_admin_refund d req = (Error (if rq_session req = None then 401 else 400) m, d, [])"
    using refund_rejected[of req body d day] by blast
  then show "http_status (fst (POST_admin_refund d req)) = (if rq_session req = None then 401 else 400) \<and>
        fst (snd (POST_admin_refund d req)) = d \<and> snd (snd (POST_admin_refund d req)) = []"
    by simp
next
  assume "case rq_gateway req of
       Inl msg \<Rightarrow> True
     | Inr refund \<Rightarrow> refund_status refund \<noteq> ''succeeded'' \<and> refund_status refund \<noteq> ''pending''"
  then show "http_status (fst (POST_admin_refund d req)) \<in> {400, 401, 404, 500} \<and>
        fst (snd (POST_admin_refund d req)) = d \<and>
        (snd (snd (POST_admin_refund d req)) \<noteq> [] \<longrightarrow>
           fst (POST_admin_refund d req) =
             Error 500 (case rq_gateway req of
                          Inl msg \<Rightarrow> msg
                        | Inr refund \<Rightarrow> ''Stripe refund failed: '' @ refund_status refund))"
    by (rule refund_gateway_failure)
qed

theorem refund_preconditions_witness:
  "POST_admin_refund seed_db (ex_refund_request ''2027-03-15'' True)
     = (Error 400 ''This date is not sold - cannot refund.'', seed_db, []) \<and>
   fst (POST_admin_refund sold_ledger ex_failed_refund_request) = Error 500 ''Stripe refund failed: failed'' \<and>
   fst (snd (POST_admin_refund sold_ledger ex_failed_refund_request)) = sold_ledger"
proof -
  let ?req = "ex_refund_request ''2027-03-15'' True"
  let ?body = "\<lparr>rb_date = Some ''2027-03-15'', rb_restoreDate = Some True, rb_reason = Some ''duplicate''\<rparr>"
  have a: "rq_body ?req = Some ?body \<and>
           findUnique_date seed_db (or_default (rb_date ?body) []) = Some (seed_day ''d1'' ''2027-03-15'') \<and>
           (status (seed_day ''d1'' ''2027-03-15'') \<noteq> SOLD \<or>
            \<not> truthy (stripePaymentIntentId (seed_day ''d1'' ''2027-03-15'')))"
    by code_simp
  have b: "case rq_gateway ex_failed_refund_request of
             Inl msg \<Rightarrow> True
           | Inr refund \<Rightarrow> refund_status refund \<noteq> ''succeeded'' \<and> refund_status refund \<noteq> ''pending''"
    by code_simp
  have c: "snd (snd (POST_admin_refund sold_ledger ex_failed_refund_request)) \<noteq> []"
    by code_simp
  have msg: "fst (POST_admin_refund seed_db ?req) = Error 400 ''This date is not sold - cannot refund.''"
    by code_simp
  have "http_status (fst (POST_admin_refund seed_db ?req)) = 400 \<and>
        fst (snd (POST_admin_refund seed_db ?req)) = seed_db \<and>
        snd (snd (POST_admin_refund seed_db ?req)) = []"
    using refund_preconditions[of ?req ?body seed_db "seed_day ''d1'' ''2027-03-15''"] a
    by (simp add: ex_refund_request_def)
  then have first: "POST_admin_refund seed_db ?req
     = (Error 400 ''This date is not sold - cannot refund.'', seed_db, [])"
    using msg by (simp add: prod_eq_iff)
  have "fst (snd (POST_admin_refund sold_ledger ex_failed_refund_request)) = sold_ledger \<and>
        fst (POST_admin_refund sold_ledger ex_failed_refund_request) =
             Error 500 (case rq_gateway ex_failed_refund_request of
                          Inl msg \<Rightarrow> msg
                        | Inr refund \<Rightarrow> ''Stripe refund failed: '' @ refund_status refund)"
    using refund_preconditions[of ex_failed_refund_request body sold_ledger day] b c by blast
  then show ?thesis using first by (simp add: ex_failed_refund_request_def)
qed

section \<open>Expiring holds on read\<close>

lemma expire_holds_tx_result:
  assumes "\<forall>day \<in> set days. day_id day \<in> day_id ` set (calendarDay d)"
  shows "expire_holds_tx days d =
           Inr ((), d\<lparr>calendarDay := map (\<lambda>r. if day_id r \<in> day_id ` set days then expire_row r else r)
                                        (calendarDay d),
                      auditLog := auditLog d @ map hold_expired_entry days\<rparr>)"
  using assms
proof (induction days arbitrary: d)
  case Nil
  then show ?case by simp
next
  case (Cons day rest)
  obtain r where r: "r \<in> set (calendarDay d)" "day_id r = day_id day"
    using Cons.prems by auto
  have upd: "update_calendarDay (day_id day) expire_row (calendarDay d)
               = Some (update_rows (day_id day) expire_row (calendarDay d))"
    using update_calendarDay_same_pi[OF r(1), of expire_row] r(2) by simp
  let ?d1 = "create_auditLog (hold_expired_entry day)
               (d\<lparr>calendarDay := update_rows (day_id day) expire_row (calendarDay d)\<rparr>)"
  have ids: "day_id ` set (calendarDay ?d1) = day_id ` set (calendarDay d)"
    using update_rows_ids[of expire_row "day_id day" "calendarDay d"]
    by (simp add: create_auditLog_def flip: set_map)
  have "\<forall>x \<in> set rest. day_id x \<in> day_id ` set (calendarDay ?d1)"
    using Cons.prems ids by simp
  from Cons.IH[OF this] show ?case
    by (simp add: upd create_auditLog_def update_rows_def comp_def cong: map_cong if_cong)
qed

lemma expire_holds_tx_filter:
  "expire_holds_tx (filter (is_expired_hold now) (calendarDay d)) d =
     Inr ((), d\<lparr>calendarDay :=
                  map (\<lambda>r. if day_id r \<in> day_id ` {x \<in> set (calendarDay d). is_expired_hold now x}
                            then expire_row r else r) (calendarDay d),
                auditLog := auditLog d @ map hold_expired_entry (filter (is_expired_hold now) (calendarDay d))\<rparr>)"
  using expire_holds_tx_result[of "filter (is_expired_hold now) (calendarDay d)" d] by auto

lemma GET_calendar_ledger:
  "snd (GET_calendar d True now ns) =
     d\<lparr>calendarDay :=
         map (\<lambda>r. if day_id r \<in> day_id ` {x \<in> set (calendarDay d). is_expired_hold now x}
                   then expire_row r else r) (calendarDay d),
       auditLog := auditLog d @ map hold_expired_entry (filter (is_expired_hold now) (calendarDay d))\<rparr>"
proof (cases "filter (is_expired_hold now) (calendarDay d) = []")
  case True
  then have none: "{x \<in> set (calendarDay d). is_expired_hold now x} = {}"
    by (auto simp: filter_empty_conv)
  have "map (\<lambda>r. if day_id r \<in> day_id ` {x \<in> set (calendarDay d). is_expired_hold now x}
                   then expire_row r else r) (calendarDay d) = calendarDay d"
    unfolding none by simp
  then show ?thesis using True by (simp add: GET_calendar_def Let_def)
next
  case False
  then show ?thesis
    by (simp add: GET_calendar_def Let_def expire_holds_tx_filter)
qed

lemma GET_calendar_response:
  "fst (GET_calendar d True now ns) =
     Json \<lparr>res_days = map public_day (days_of_year (snd (GET_calendar d True now ns))
                          (case adminSettings d of None \<Rightarrow> 2027 | Some s \<Rightarrow> calendarYear s)),
           res_salesStatus = getSalesStatus (adminSettings d) ns,
           res_priceInCents = (case adminSettings d of None \<Rightarrow> 10000 | Some s \<Rightarrow> priceInCents s),
           res_year = (case adminSettings d of None \<Rightarrow> 2027 | Some s \<Rightarrow> calendarYear s)\<rparr>"
proof (cases "filter (is_expired_hold now) (calendarDay d) = []")
  case True
  then show ?thesis by (simp add: GET_calendar_def Let_def)
next
  case False
  then show ?thesis
    by (simp add: GET_calendar_def Let_def expire_holds_tx_filter)
qed

lemma expired_rows_fresh:
  "list_all (\<lambda>r. \<not> is_expired_hold now r)
     (map (\<lambda>r. if day_id r \<in> day_id ` {x \<in> set rows. is_expired_hold now x} then expire_row r else r) rows)"
proof -
  have "\<not> is_expired_hold now (expire_row r)" for r
    by (simp add: is_expired_hold_def)
  then show ?thesis
    unfolding list_all_iff by (auto split: if_splits)
qed

lemma expired_rows_reverted:
  "list_all2 (\<lambda>r r'. is_expired_hold now r \<longrightarrow> r' = expire_row r) rows
     (map (\<lambda>r. if day_id r \<in> day_id ` {x \<in> set rows. is_expired_hold now x} then expire_row r else r) rows)"
  by (intro list_all2_map_self) auto

lemma expired_id_iff:
  assumes "distinct (map day_id rows)" and "r \<in> set rows"
  shows "day_id r \<in> day_id ` {x \<in> set rows. is_expired_hold now x} \<longleftrightarrow> is_expired_hold now r"
proof
  assume "day_id r \<in> day_id ` {x \<in> set rows. is_expired_hold now x}"
  then obtain x where x: "x \<in> set rows" "is_expired_hold now x" "day_id r = day_id x"
    by blast
  have "r = x" using same_id_same_row[OF assms(1,2) x(1,3)] .
  then show "is_expired_hold now r" using x(2) by (simp only:)
next
  assume "is_expired_hold now r"
  then show "day_id r \<in> day_id ` {x \<in> set rows. is_expired_hold now x}"
    using assms(2) by blast
qed

lemma expired_rows_unique:
  assumes "distinct (map day_id rows)"
  shows "map (\<lambda>r. if day_id r \<in> day_id ` {x \<in> set rows. is_expired_hold now x} then expire_row r else r) rows
       = map (\<lambda>r. if is_expired_hold now r then expire_row r else r) rows"
proof (rule map_cong[OF refl])
  fix r assume "r \<in> set rows"
  then show "(if day_id r \<in> day_id ` {x \<in> set rows. is_expired_hold now x} then expire_row r else r)
        = (if is_expired_hold now r then expire_row r else r)"
    by (simp only: expired_id_iff[OF assms])
qed

lemma set_days_of_year: "set (days_of_year d year) \<subseteq> set (calendarDay d)"
  by (auto simp: days_of_year_def)

lemma public_days_fresh:
  assumes "list_all (\<lambda>r. \<not> is_expired_hold now r) (calendarDay d)"
  shows "list_all (\<lambda>p. \<not> (pub_status p = CHECKOUT_HOLD \<and>
                        (case pub_holdExpiresAt p of None \<Rightarrow> False | Some t \<Rightarrow> t < now)))
               (map public_day (days_of_year d y))"
  unfolding list_all_iff
proof
  fix p assume "p \<in> set (map public_day (days_of_year d y))"
  then obtain r where r: "r \<in> set (calendarDay d)" "p = public_day r"
    using set_days_of_year[of d y] by auto
  then have "\<not> is_expired_hold now r" using assms by (simp add: list_all_iff)
  then show "\<not> (pub_status p = CHECKOUT_HOLD \<and>
                 (case pub_holdExpiresAt p of None \<Rightarrow> False | Some t \<Rightarrow> t < now))"
    unfolding r(2) by (simp add: public_day_def is_expired_hold_def)
qed

lemma expired_rows_stay_available:
  "list_all2 (\<lambda>r r'. is_expired_hold now r \<longrightarrow> status r' = AVAILABLE) rows
     (map (\<lambda>r. if day_id r \<in> S2 then expire_row r else r)
        (map (\<lambda>r. if day_id r \<in> day_id ` {x \<in> set rows. is_expired_hold now x} then expire_row r else r) rows))"
  unfolding map_map by (intro list_all2_map_self) (auto simp: comp_def)

lemma set_days_of_year_eq:
  "set (days_of_year d y) =
     {r \<in> set (calendarDay d). String_of_nat y @ ''-01-01'' \<le> date r \<and> date r < String_of_nat (y + 1) @ ''-01-01''}"
  by (auto simp: days_of_year_def)

lemma shown_available_rows:
  assumes mem: "expire_row r \<in> set (calendarDay d1)"
    and yr: "String_of_nat y @ ''-01-01'' \<le> date r \<and> date r < String_of_nat (y + 1) @ ''-01-01''"
    and av: "\<forall>x \<in> set (calendarDay d1). day_id x = day_id r \<longrightarrow> status x = AVAILABLE"
  shows "shown_available
           (Json \<lparr>res_days = map public_day (days_of_year d1 y), res_salesStatus = st,
                  res_priceInCents = pr, res_year = y\<rparr>) r"
proof -
  have "expire_row r \<in> set (days_of_year d1 y)"
    using mem yr by (simp add: set_days_of_year_eq expire_row_def)
  then have "public_day (expire_row r) \<in> set (map public_day (days_of_year d1 y))"
    by simp
  moreover have "pub_id (public_day (expire_row r)) = day_id r \<and> pub_date (public_day (expire_row r)) = date r \<and>
      pub_status (public_day (expire_row r)) = AVAILABLE \<and>
      pub_dedicationText (public_day (expire_row r)) = None \<and> pub_holdExpiresAt (public_day (expire_row r)) = None"
    by (simp add: public_day_def expire_row_def)
  ultimately have ex: "list_ex (\<lambda>p. pub_id p = day_id r \<and> pub_date p = date r \<and> pub_status p = AVAILABLE \<and>
                        pub_dedicationText p = None \<and> pub_holdExpiresAt p = None)
                 (map public_day (days_of_year d1 y))"
    unfolding list_ex_iff by blast
  have all: "list_all (\<lambda>p. pub_id p = day_id r \<longrightarrow> pub_status p = AVAILABLE)
               (map public_day (days_of_year d1 y))"
    unfolding list_all_iff
  proof
    fix p assume "p \<in> set (map public_day (days_of_year d1 y))"
    then obtain x where x: "x \<in> set (calendarDay d1)" "p = public_day x"
      using set_days_of_year[of d1 y] by auto
    show "pub_id p = day_id r \<longrightarrow> pub_status p = AVAILABLE"
      using av x(1) unfolding x(2) by (simp add: public_day_def)
  qed
  show ?thesis using ex all by (simp add: shown_available_def)
qed

lemma reverted_rows_available:
  assumes "r \<in> set rows" and "is_expired_hold now r"
  shows "expire_row r \<in> set (map (\<lambda>r. if day_id r \<in> day_id ` {x \<in> set rows. is_expired_hold now x}
                                      then expire_row r else r) rows)"
    and "\<forall>x \<in> set (map (\<lambda>r. if day_id r \<in> day_id ` {x \<in> set rows. is_expired_hold now x}
                               then expire_row r else r) rows).
           day_id x = day_id r \<longrightarrow> x = expire_row x"
proof -
  let ?S = "day_id ` {x \<in> set rows. is_expired_hold now x}"
  have inS: "day_id r \<in> ?S" using assms by blast
  then have "expire_row r = (\<lambda>r. if day_id r \<in> ?S then expire_row r else r) r" by simp
  then have "expire_row r \<in> (\<lambda>r. if day_id r \<in> ?S then expire_row r else r) ` set rows"
    using assms(1) by (rule image_eqI)
  then show "expire_row r \<in> set (map (\<lambda>r. if day_id r \<in> ?S then expire_row r else r) rows)"
    by (simp only: set_map)
  show "\<forall>x \<in> set (map (\<lambda>r. if day_id r \<in> ?S then expire_row r else r) rows).
           day_id x = day_id r \<longrightarrow> x = expire_row x"
  proof (intro ballI impI)
    fix x assume x: "x \<in> set (map (\<lambda>r. if day_id r \<in> ?S then expire_row r else r) rows)"
      and eq: "day_id x = day_id r"
    from x obtain x0 where x0: "x0 \<in> set rows" "x = (if day_id x0 \<in> ?S then expire_row x0 else x0)"
      by auto
    have "day_id x = day_id x0" unfolding x0(2) by simp
    then have "day_id x0 \<in> ?S" using eq inS by (simp only:)
    then have "x = expire_row x0" using x0(2) by (simp only: if_True)
    then show "x = expire_row x" by simp
  qed
qed

lemma reverted_rows_stay:
  assumes "expire_row r \<in> set rows1"
    and "\<forall>x \<in> set rows1. day_id x = day_id r \<longrightarrow> x = expire_row x"
  shows "expire_row r \<in> set (map (\<lambda>x. if day_id x \<in> S2 then expire_row x else x) rows1)"
    and "\<forall>x \<in> set (map (\<lambda>x. if day_id x \<in> S2 then expire_row x else x) rows1).
           day_id x = day_id r \<longrightarrow> x = expire_row x"
proof -
  let ?h = "\<lambda>x. if day_id x \<in> S2 then expire_row x else x"
  have "expire_row r = ?h (expire_row r)" by simp
  then have "expire_row r \<in> ?h ` set rows1" using assms(1) by (rule image_eqI)
  then show "expire_row r \<in> set (map ?h rows1)" by (simp only: set_map)
  show "\<forall>x \<in> set (map ?h rows1). day_id x = day_id r \<longrightarrow> x = expire_row x"
  proof (intro ballI impI)
    fix x assume x: "x \<in> set (map ?h rows1)" and eq: "day_id x = day_id r"
    from x obtain x1 where x1: "x1 \<in> set rows1" "x = ?h x1" by auto
    have "day_id x = day_id x1" unfolding x1(2) by simp
    then have "x1 = expire_row x1" using assms(2) x1(1) eq by simp
    then have "?h x1 = expire_row x1" by (metis (full_types))
    then show "x = expire_row x" unfolding x1(2) by simp
  qed
qed

lemma status_expired_fixpoint:
  assumes "x = expire_row x"
  shows "status x = AVAILABLE"
  by (subst assms) (simp add: expire_row_def)

lemma new_expired_entries:
  "map calendarDayId (map hold_expired_entry rows) = map day_id rows \<and>
   list_all (\<lambda>e. action e = CHECKOUT_HOLD_EXPIRED \<and>
                entry_status (oldValue e) = Some CHECKOUT_HOLD \<and>
                entry_status (newValue e) = Some AVAILABLE) (map hold_expired_entry rows)"
  by (simp add: hold_expired_entry_def entry_status_def list_all_iff comp_def)

text \<open>
  C8.  The read of the public calendar first reverts the expired holds.  After it, no row
  is a hold whose expiry is before \<open>now\<close>; every row that was one is \<open>AVAILABLE\<close>
  with token and expiry cleared, and every other row is as before (the ids being
  unique); the audit table has grown by exactly one entry per reverted hold, in the order
  of the rows, each tagged \<open>CHECKOUT_HOLD_EXPIRED\<close>, naming its row, with
  \<open>CHECKOUT_HOLD\<close> as the old state and \<open>AVAILABLE\<close> as the new one.  The answer of
  this read shows no such hold, and it shows every reverted row of the calendar year as
  \<open>AVAILABLE\<close>; so does the answer of a further read, at whatever time, after which
  those rows are still \<open>AVAILABLE\<close> in the ledger.
\<close>

theorem expired_holds_reverted:
  "list_all (\<lambda>r. \<not> is_expired_hold now r) (calendarDay (snd (GET_calendar d True now ns))) \<and>
   list_all (\<lambda>r. \<not> (status r = CHECKOUT_HOLD \<and>
                     (case holdExpiresAt r of None \<Rightarrow> False | Some t \<Rightarrow> t < now)))
     (calendarDay (snd (GET_calendar d True now ns))) \<and>
   list_all2 (\<lambda>r r'. is_expired_hold now r \<longrightarrow> r' = expire_row r)
     (calendarDay d) (calendarDay (snd (GET_calendar d True now ns))) \<and>
   list_all2 (\<lambda>r r'. status r = CHECKOUT_HOLD \<and>
                  (case holdExpiresAt r of None \<Rightarrow> False | Some t \<Rightarrow> t < now)
                \<longrightarrow> day_id r' = day_id r \<and> status r' = AVAILABLE \<and>
                    holdToken r' = None \<and> holdExpiresAt r' = None)
     (calendarDay d) (calendarDay (snd (GET_calendar d True now ns))) \<and>
   (ids_unique d \<longrightarrow>
      calendarDay (snd (GET_calendar d True now ns))
        = map (\<lambda>r. if is_expired_hold now r then expire_row r else r) (calendarDay d)) \<and>
   auditLog (snd (GET_calendar d True now ns))
     = auditLog d @ map hold_expired_entry (filter (is_expired_hold now) (calendarDay d)) \<and>
   map calendarDayId (new_entries d (snd (GET_calendar d True now ns)))
     = map day_id (filter (is_expired_hold now) (calendarDay d)) \<and>
   list_all (\<lambda>e. action e = CHECKOUT_HOLD_EXPIRED \<and>
                entry_status (oldValue e) = Some CHECKOUT_HOLD \<and>
                entry_status (newValue e) = Some AVAILABLE)
     (new_entries d (snd (GET_calendar d True now ns))) \<and>
   (\<exists>res. fst (GET_calendar d True now ns) = Json res \<and>
      list_all (\<lambda>p. \<not> (pub_status p = CHECKOUT_HOLD \<and>
                        (case pub_holdExpiresAt p of None \<Rightarrow> False | Some t \<Rightarrow> t < now)))
               (res_days res)) \<and>
   list_all (\<lambda>r. is_expired_hold now r \<and> in_calendar_year d r
                \<longrightarrow> shown_available (fst (GET_calendar d True now ns)) r) (calendarDay d) \<and>
   list_all2 (\<lambda>r r'. is_expired_hold now r \<longrightarrow> status r' = AVAILABLE)
     (calendarDay d) (calendarDay (snd (GET_calendar (snd (GET_calendar d True now ns)) True later ns'))) \<and>
   list_all (\<lambda>r. is_expired_hold now r \<and> in_calendar_year d r
                \<longrightarrow> shown_available (fst (GET_calendar (snd (GET_calendar d True now ns)) True later ns')) r)
     (calendarDay d)"
proof -
  let ?S = "day_id ` {x \<in> set (calendarDay d). is_expired_hold now x}"
  let ?g = "\<lambda>r. if day_id r \<in> ?S then expire_row r else r"
  let ?d' = "snd (GET_calendar d True now ns)"
  let ?E = "filter (is_expired_hold now) (calendarDay d)"
  let ?y = "case adminSettings d of None \<Rightarrow> 2027 | Some s \<Rightarrow> calendarYear s"
  have cal: "calendarDay ?d' = map ?g (calendarDay d)"
    by (simp add: GET_calendar_ledger)
  have log: "auditLog ?d' = auditLog d @ map hold_expired_entry ?E"
    by (simp add: GET_calendar_ledger)
  have set: "adminSettings ?d' = adminSettings d"
    by (simp add: GET_calendar_ledger)
  have new: "new_entries d ?d' = map hold_expired_entry ?E"
    by (simp add: new_entries_def log)
  have p1: "list_all (\<lambda>r. \<not> is_expired_hold now r) (calendarDay ?d')"
    unfolding cal by (rule expired_rows_fresh)
  have p2: "list_all2 (\<lambda>r r'. is_expired_hold now r \<longrightarrow> r' = expire_row r) (calendarDay d) (calendarDay ?d')"
    unfolding cal by (rule expired_rows_reverted)
  have p1b: "list_all (\<lambda>r. \<not> (status r = CHECKOUT_HOLD \<and>
                     (case holdExpiresAt r of None \<Rightarrow> False | Some t \<Rightarrow> t < now)))
     (calendarDay ?d')"
    using p1 by (simp only: is_expired_hold_def)
  have p2b: "list_all2 (\<lambda>r r'. status r = CHECKOUT_HOLD \<and>
                  (case holdExpiresAt r of None \<Rightarrow> False | Some t \<Rightarrow> t < now)
                \<longrightarrow> day_id r' = day_id r \<and> status r' = AVAILABLE \<and>
                    holdToken r' = None \<and> holdExpiresAt r' = None)
     (calendarDay d) (calendarDay ?d')"
    by (rule list_all2_mono[OF p2]) (auto simp: is_expired_hold_def expire_row_def)
  have p3: "ids_unique d \<longrightarrow>
      calendarDay ?d' = map (\<lambda>r. if is_expired_hold now r then expire_row r else r) (calendarDay d)"
    unfolding cal ids_unique_def using expired_rows_unique[of "calendarDay d" now] by (rule impI)
  have e1: "map calendarDayId (new_entries d ?d') = map day_id ?E"
    unfolding new using new_expired_entries[of ?E] by (rule conjunct1)
  have e2: "list_all (\<lambda>e. action e = CHECKOUT_HOLD_EXPIRED \<and>
                entry_status (oldValue e) = Some CHECKOUT_HOLD \<and>
                entry_status (newValue e) = Some AVAILABLE) (new_entries d ?d')"
    unfolding new using new_expired_entries[of ?E] by (rule conjunct2)
  have res: "fst (GET_calendar d True now ns) =
     Json \<lparr>res_days = map public_day (days_of_year ?d' ?y),
           res_salesStatus = getSalesStatus (adminSettings d) ns,
           res_priceInCents = (case adminSettings d of None \<Rightarrow> 10000 | Some s \<Rightarrow> priceInCents s),
           res_year = ?y\<rparr>"
    by (rule GET_calendar_response)
  have p5: "\<exists>res. fst (GET_calendar d True now ns) = Json res \<and>
      list_all (\<lambda>p. \<not> (pub_status p = CHECKOUT_HOLD \<and>
                        (case pub_holdExpiresAt p of None \<Rightarrow> False | Some t \<Rightarrow> t < now)))
               (res_days res)"
    using public_days_fresh[OF p1] by (subst res) simp
  have shown1: "shown_available (fst (GET_calendar d True now ns)) r"
    if r: "r \<in> set (calendarDay d)" and ex: "is_expired_hold now r" and yr: "in_calendar_year d r" for r
  proof -
    have mem: "expire_row r \<in> set (calendarDay ?d')"
      unfolding cal using reverted_rows_available(1)[OF r ex] .
    have av: "\<forall>x \<in> set (calendarDay ?d'). day_id x = day_id r \<longrightarrow> status x = AVAILABLE"
      unfolding cal using reverted_rows_available(2)[OF r ex] status_expired_fixpoint by blast
    have range: "String_of_nat ?y @ ''-01-01'' \<le> date r \<and> date r < String_of_nat (?y + 1) @ ''-01-01''"
      using yr by (simp add: in_calendar_year_def Let_def)
    show ?thesis
      unfolding res by (rule shown_available_rows[OF mem range av])
  qed
  have p5b: "list_all (\<lambda>r. is_expired_hold now r \<and> in_calendar_year d r
                \<longrightarrow> shown_available (fst (GET_calendar d True now ns)) r) (calendarDay d)"
    unfolding list_all_iff using shown1 by blast
  let ?S2 = "day_id ` {x \<in> set (calendarDay ?d'). is_expired_hold later x}"
  let ?d2 = "snd (GET_calendar ?d' True later ns')"
  have cal2: "calendarDay ?d2
              = map (\<lambda>r. if day_id r \<in> ?S2 then expire_row r else r) (map ?g (calendarDay d))"
    by (simp add: GET_calendar_ledger[of ?d' later ns'] cal)
  have p6: "list_all2 (\<lambda>r r'. is_expired_hold now r \<longrightarrow> status r' = AVAILABLE)
     (calendarDay d) (calendarDay ?d2)"
    unfolding cal2 by (rule expired_rows_stay_available)
  have res2: "fst (GET_calendar ?d' True later ns') =
     Json \<lparr>res_days = map public_day (days_of_year ?d2 ?y),
           res_salesStatus = getSalesStatus (adminSettings d) ns',
           res_priceInCents = (case adminSettings d of None \<Rightarrow> 10000 | Some s \<Rightarrow> priceInCents s),
           res_year = ?y\<rparr>"
    using GET_calendar_response[of ?d' later ns'] unfolding set .
  have shown2: "shown_available (fst (GET_calendar ?d' True later ns')) r"
    if r: "r \<in> set (calendarDay d)" and ex: "is_expired_hold now r" and yr: "in_calendar_year d r" for r
  proof -
    have mem: "expire_row r \<in> set (calendarDay ?d2)"
      unfolding cal2
      by (rule reverted_rows_stay(1)[OF reverted_rows_available(1)[OF r ex] reverted_rows_available(2)[OF r ex]])
    have "\<forall>x \<in> set (calendarDay ?d2). day_id x = day_id r \<longrightarrow> x = expire_row x"
      unfolding cal2
      by (rule reverted_rows_stay(2)[OF reverted_rows_available(1)[OF r ex] reverted_rows_available(2)[OF r ex]])
    then have av: "\<forall>x \<in> set (calendarDay ?d2). day_id x = day_id r \<longrightarrow> status x = AVAILABLE"
      using status_expired_fixpoint by blast
    have range: "String_of_nat ?y @ ''-01-01'' \<le> date r \<and> date r < String_of_nat (?y + 1) @ ''-01-01''"
      using yr by (simp add: in_calendar_year_def Let_def)
    show ?thesis
      unfolding res2 by (rule shown_available_rows[OF mem range av])
  qed
  have p6b: "list_all (\<lambda>r. is_expired_hold now r \<and> in_calendar_year d r
                \<longrightarrow> shown_available (fst (GET_calendar ?d' True later ns')) r) (calendarDay d)"
    unfolding list_all_iff using shown2 by blast
  show ?thesis
    by (intro conjI p1 p1b p2 p2b p3 log e1 e2 p5 p5b p6 p6b)
qed

theorem expired_holds_reverted_witness:
  "map status (calendarDay held_ledger) = [CHECKOUT_HOLD, AVAILABLE] \<and>
   map holdExpiresAt (calendarDay held_ledger) = [Some 601000, None] \<and>
   map status (calendarDay (snd (GET_calendar held_ledger True 700000 700000))) = [AVAILABLE, AVAILABLE] \<and>
   map holdToken (calendarDay (snd (GET_calendar held_ledger True 700000 700000))) = [None, None] \<and>
   map holdExpiresAt (calendarDay (snd (GET_calendar held_ledger True 700000 700000))) = [None, None] \<and>
   new_entries held_ledger (snd (GET_calendar held_ledger True 700000 700000)) =
     [\<lparr>calendarDayId = ''d1'', action = CHECKOUT_HOLD_EXPIRED,
       oldValue = Some [(''status'', JStatus CHECKOUT_HOLD), (''holdToken'', JStr ''T1'')],
       newValue = Some [(''status'', JStatus AVAILABLE)],
       performedBy = ''system'', ipAddress = None,
       notesText = Some ''Checkout hold expired automatically''\<rparr>] \<and>
   shown_available (fst (GET_calendar held_ledger True 700000 700000)) (hd (calendarDay held_ledger)) \<and>
   shown_available
     (fst (GET_calendar (snd (GET_calendar held_ledger True 700000 700000)) True 800000 800000))
     (hd (calendarDay held_ledger)) \<and>
   fst (GET_calendar held_ledger True 700000 700000) =
     Json \<lparr>res_days =
             [\<lparr>pub_id = ''d1'', pub_date = ''2027-03-15'', pub_status = AVAILABLE,
               pub_dedicationText = None, pub_holdExpiresAt = None\<rparr>,
              \<lparr>pub_id = ''d2'', pub_date = ''2027-03-16'', pub_status = AVAILABLE,
               pub_dedicationText = None, pub_holdExpiresAt = None\<rparr>],
           res_salesStatus = ''open'', res_priceInCents = 10000, res_year = 2027\<rparr>"
proof -
  let ?d' = "snd (GET_calendar held_ledger True 700000 700000)"
  have a: "ids_unique held_ledger" by code_simp
  have b: "map status (calendarDay held_ledger) = [CHECKOUT_HOLD, AVAILABLE]"
    and c: "map holdExpiresAt (calendarDay held_ledger) = [Some 601000, None]"
    and e: "map status (map (\<lambda>r. if is_expired_hold 700000 r then expire_row r else r) (calendarDay held_ledger))
            = [AVAILABLE, AVAILABLE]"
    and f: "map holdToken (map (\<lambda>r. if is_expired_hold 700000 r then expire_row r else r) (calendarDay held_ledger))
            = [None, None]"
    and g: "map holdExpiresAt (map (\<lambda>r. if is_expired_hold 700000 r then expire_row r else r) (calendarDay held_ledger))
            = [None, None]"
    and h: "auditLog held_ledger @ map hold_expired_entry (filter (is_expired_hold 700000) (calendarDay held_ledger))
            = auditLog held_ledger @
              [\<lparr>calendarDayId = ''d1'', action = CHECKOUT_HOLD_EXPIRED,
                oldValue = Some [(''status'', JStatus CHECKOUT_HOLD), (''holdToken'', JStr ''T1'')],
                newValue = Some [(''status'', JStatus AVAILABLE)],
                performedBy = ''system'', ipAddress = None,
                notesText = Some ''Checkout hold expired automatically''\<rparr>]"
    and i: "list_all (\<lambda>r. is_expired_hold 700000 r \<and> in_calendar_year held_ledger r)
              [hd (calendarDay held_ledger)]"
    and j: "calendarDay held_ledger = [hd (calendarDay held_ledger), hd (tl (calendarDay held_ledger))]"
    and k: "fst (GET_calendar held_ledger True 700000 700000) =
              Json \<lparr>res_days =
                      [\<lparr>pub_id = ''d1'', pub_date = ''2027-03-15'', pub_status = AVAILABLE,
                        pub_dedicationText = None, pub_holdExpiresAt = None\<rparr>,
                       \<lparr>pub_id = ''d2'', pub_date = ''2027-03-16'', pub_status = AVAILABLE,
                        pub_dedicationText = None, pub_holdExpiresAt = None\<rparr>],
                    res_salesStatus = ''open'', res_priceInCents = 10000, res_year = 2027\<rparr>"
    by code_simp+
  note inst = expired_holds_reverted[of 700000 held_ledger 700000 800000 800000]
  have rows: "calendarDay ?d' = map (\<lambda>r. if is_expired_hold 700000 r then expire_row r else r) (calendarDay held_ledger)"
    using inst a by blast
  have log: "auditLog ?d' = auditLog held_ledger @ map hold_expired_entry (filter (is_expired_hold 700000) (calendarDay held_ledger))"
    using inst by blast
  have s1: "list_all (\<lambda>r. is_expired_hold 700000 r \<and> in_calendar_year held_ledger r
                \<longrightarrow> shown_available (fst (GET_calendar held_ledger True 700000 700000)) r) (calendarDay held_ledger)"
    using inst by blast
  have s2: "list_all (\<lambda>r. is_expired_hold 700000 r \<and> in_calendar_year held_ledger r
                \<longrightarrow> shown_available (fst (GET_calendar ?d' True 800000 800000)) r)
     (calendarDay held_ledger)"
    using inst by blast
  have n: "new_entries held_ledger ?d' =
     [\<lparr>calendarDayId = ''d1'', action = CHECKOUT_HOLD_EXPIRED,
       oldValue = Some [(''status'', JStatus CHECKOUT_HOLD), (''holdToken'', JStr ''T1'')],
       newValue = Some [(''status'', JStatus AVAILABLE)],
       performedBy = ''system'', ipAddress = None,
       notesText = Some ''Checkout hold expired automatically''\<rparr>]"
    unfolding new_entries_def log h by simp
  have t1: "shown_available (fst (GET_calendar held_ledger True 700000 700000)) (hd (calendarDay held_ledger))"
    using s1 i by (subst (asm) j) simp
  have t2: "shown_available (fst (GET_calendar ?d' True 800000 800000)) (hd (calendarDay held_ledger))"
    using s2 i by (subst (asm) j) simp
  show ?thesis
    using b c e f g n t1 t2 k unfolding rows by (intro conjI)
qed

section \<open>The public calendar\<close>

lemma public_day_view:
  "public_day r = \<lparr>pub_id = fst (public_view r), pub_date = fst (snd (public_view r)),
                   pub_status = fst (snd (snd (public_view r))),
                   pub_dedicationText = fst (snd (snd (snd (public_view r)))),
                   pub_holdExpiresAt = snd (snd (snd (snd (public_view r))))\<rparr>"
  by (simp add: public_day_def public_view_def)

lemma is_expired_hold_view:
  "is_expired_hold now r =
     (fst (snd (snd (public_view r))) = CHECKOUT_HOLD \<and>
      (case snd (snd (snd (snd (public_view r)))) of None \<Rightarrow> False | Some t \<Rightarrow> t < now))"
  by (simp add: is_expired_hold_def public_view_def)

lemma public_view_expire_row:
  "public_view (expire_row r) = (fst (public_view r), fst (snd (public_view r)), AVAILABLE, None, None)"
  by (simp add: public_view_def expire_row_def)

lemma day_id_view: "day_id r = fst (public_view r)"
  by (simp add: public_view_def)

lemma date_view: "date r = fst (snd (public_view r))"
  by (simp add: public_view_def)

lemma map_insort_key:
  "map g (insort_key (\<lambda>x. k (g x)) x xs) = insort_key k (g x) (map g xs)"
  by (induction xs) auto

lemma map_sort_key: "map g (sort_key (\<lambda>x. k (g x)) xs) = sort_key k (map g xs)"
  by (induction xs) (auto simp: map_insort_key)

lemma expired_ids_view:
  "day_id ` {x \<in> set rows. is_expired_hold now x} =
   fst ` {v \<in> set (map public_view rows).
            fst (snd (snd v)) = CHECKOUT_HOLD \<and>
            (case snd (snd (snd (snd v))) of None \<Rightarrow> False | Some t \<Rightarrow> t < now)}"
  by (auto simp: is_expired_hold_view day_id_view image_iff)

lemma expired_rows_view:
  "map public_view (map (\<lambda>r. if day_id r \<in> S then expire_row r else r) rows) =
   map (\<lambda>v. if fst v \<in> S then (fst v, fst (snd v), AVAILABLE, None, None) else v) (map public_view rows)"
  by (simp add: public_view_expire_row day_id_view comp_def cong: if_cong)

lemma days_of_year_view:
  "map public_view (days_of_year d year) =
   sort_key (\<lambda>v. fst (snd v))
     (filter (\<lambda>v. String_of_nat year @ ''-01-01'' \<le> fst (snd v)
                  \<and> fst (snd v) < String_of_nat (year + 1) @ ''-01-01'')
             (map public_view (calendarDay d)))"
proof -
  have sorting: "map public_view (sort_key (\<lambda>r. fst (snd (public_view r))) xs)
                 = sort_key (\<lambda>v. fst (snd v)) (map public_view xs)" for xs
    by (rule map_sort_key)
  have filtering: "map public_view (filter (\<lambda>r. P (fst (snd (public_view r)))) xs)
                   = filter (\<lambda>v. P (fst (snd v))) (map public_view xs)" for P xs
    by (simp add: filter_map comp_def)
  show ?thesis
    unfolding days_of_year_def date_view sorting
    using filtering[of "\<lambda>k. String_of_nat year @ ''-01-01'' \<le> k \<and> k < String_of_nat (year + 1) @ ''-01-01''"]
    by simp
qed

lemma map_public_day:
  "map public_day rows =
   map (\<lambda>v. \<lparr>pub_id = fst v, pub_date = fst (snd v), pub_status = fst (snd (snd v)),
              pub_dedicationText = fst (snd (snd (snd v))),
              pub_holdExpiresAt = snd (snd (snd (snd v)))\<rparr>) (map public_view rows)"
  by (simp add: public_day_view comp_def)

lemma GET_calendar_rows_view:
  "map public_view (calendarDay (snd (GET_calendar d True now ns))) =
   map (\<lambda>v. if fst v \<in> fst ` {v \<in> set (map public_view (calendarDay d)).
                                   fst (snd (snd v)) = CHECKOUT_HOLD \<and>
                                   (case snd (snd (snd (snd v))) of None \<Rightarrow> False | Some t \<Rightarrow> t < now)}
             then (fst v, fst (snd v), AVAILABLE, None, None) else v)
       (map public_view (calendarDay d))"
proof -
  have "calendarDay (snd (GET_calendar d True now ns)) =
          map (\<lambda>r. if day_id r \<in> day_id ` {x \<in> set (calendarDay d). is_expired_hold now x}
                    then expire_row r else r) (calendarDay d)"
    by (simp add: GET_calendar_ledger)
  then show ?thesis
    using expired_rows_view[of "day_id ` {x \<in> set (calendarDay d). is_expired_hold now x}" "calendarDay d"]
    unfolding expired_ids_view by simp
qed

lemma GET_calendar_view:
  assumes "map public_view (calendarDay d1) = map public_view (calendarDay d2)"
  shows "map public_view (calendarDay (snd (GET_calendar d1 True now ns)))
       = map public_view (calendarDay (snd (GET_calendar d2 True now ns)))"
  unfolding GET_calendar_rows_view assms ..

text \<open>
  C9.  The answer of the public calendar is a function of the settings and, for each row,
  of its id, date and state, of its dedication text if it is \<open>SOLD\<close> and of its hold
  expiry if it is in \<open>CHECKOUT_HOLD\<close>: two ledgers that agree on these give the same
  answer, whatever the buyers' names, e-mail addresses, phone numbers, billing addresses,
  payment references, hold tokens or notes in them.  In every answer a day shows a
  dedication text only if it is \<open>SOLD\<close> and a hold expiry only if it is in
  \<open>CHECKOUT_HOLD\<close>.
\<close>

theorem public_calendar_hides_buyer_data:
  "(map public_view (calendarDay d1) = map public_view (calendarDay d2) \<and>
    adminSettings d1 = adminSettings d2
    \<longrightarrow> fst (GET_calendar d1 allowed now ns) = fst (GET_calendar d2 allowed now ns)) \<and>
   (fst (GET_calendar d1 allowed now ns) = Json res
    \<longrightarrow> list_all (\<lambda>p. (pub_dedicationText p \<noteq> None \<longrightarrow> pub_status p = SOLD) \<and>
                      (pub_holdExpiresAt p \<noteq> None \<longrightarrow> pub_status p = CHECKOUT_HOLD))
                 (res_days res))"
proof (intro conjI impI)
  assume eq: "map public_view (calendarDay d1) = map public_view (calendarDay d2) \<and>
    adminSettings d1 = adminSettings d2"
  show "fst (GET_calendar d1 allowed now ns) = fst (GET_calendar d2 allowed now ns)"
  proof (cases allowed)
    case True
    have "map public_day (days_of_year (snd (GET_calendar d1 True now ns)) y)
        = map public_day (days_of_year (snd (GET_calendar d2 True now ns)) y)" for y
      unfolding map_public_day days_of_year_view using GET_calendar_view[of d1 d2 now ns] eq by simp
    then show ?thesis using True eq by (simp add: GET_calendar_response)
  next
    case False
    then show ?thesis by (simp add: GET_calendar_def)
  qed
next
  assume res: "fst (GET_calendar d1 allowed now ns) = Json res"
  then have allowed by (cases allowed) (simp_all add: GET_calendar_def)
  then have "res_days res = map public_day (days_of_year (snd (GET_calendar d1 True now ns))
                          (case adminSettings d1 of None \<Rightarrow> 2027 | Some s \<Rightarrow> calendarYear s))"
    using res[symmetric] by (simp add: GET_calendar_response)
  then show "list_all (\<lambda>p. (pub_dedicationText p \<noteq> None \<longrightarrow> pub_status p = SOLD) \<and>
                      (pub_holdExpiresAt p \<noteq> None \<longrightarrow> pub_status p = CHECKOUT_HOLD))
                 (res_days res)"
    by (simp add: list_all_iff public_day_def)
qed

theorem public_calendar_hides_buyer_data_witness:
  "map buyerEmail (calendarDay ex_private_ledger) \<noteq> map buyerEmail (calendarDay sold_ledger) \<and>
   fst (GET_calendar ex_private_ledger True 5000 5000) = fst (GET_calendar sold_ledger True 5000 5000)"
proof -
  have a: "map public_view (calendarDay ex_private_ledger) = map public_view (calendarDay sold_ledger) \<and>
           adminSettings ex_private_ledger = adminSettings sold_ledger"
    and b: "map buyerEmail (calendarDay ex_private_ledger) \<noteq> map buyerEmail (calendarDay sold_ledger)"
    by code_simp+
  show ?thesis
    using public_calendar_hides_buyer_data[of ex_private_ledger sold_ledger True 5000 5000] a b by blast
qed

section \<open>Audit entries\<close>

text \<open>
  An update of one row together with one new audit entry that names the row and records
  its state before and after is an audited step; each route is made of at most one such
  step, the calendar read of one per expired hold.
\<close>

lemma new_entries_create [simp]:
  "auditLog d' = auditLog d \<Longrightarrow> new_entries d (create_auditLog e d') = [e]"
  by (simp add: new_entries_def create_auditLog_def)

lemma entry_status_status [simp]:
  "entry_status (Some ((''status'', JStatus s) # rest)) = Some s"
  by (simp add: entry_status_def)






























end
